theory Spec2Isabelle
  imports Main "HOL-Library.Word"
begin

section \<open>Python values the scripts compute with\<close>

text \<open>
  The two scripts \<^verbatim>\<open>01_create_stac.py\<close> (the browsing catalog) and
  \<^verbatim>\<open>03_test_dataset.py\<close> (the indexed dataset store) are embedded as HOL functions.
  An exception is a value: a call that can raise returns \<open>exn + 'a\<close>, with \<open>Inl\<close> the
  exception. The handlers of the scripts tell at most one class apart, ValueError (the
  class and its subclasses); IndexError is what indexing a list out of range raises.
\<close>

datatype exn = IndexError | ValueError | OtherException

subsection \<open>Strings\<close>

text \<open>
  A Python \<^verbatim>\<open>str\<close> is a \<open>string\<close>; file names and tag values are taken to be ASCII, so a
  character is a byte. \<open>str_split sep s\<close> is \<^verbatim>\<open>s.split(sep)\<close> for a one-character separator:
  it keeps empty fields and never returns the empty list.
\<close>

fun str_split :: "char \<Rightarrow> string \<Rightarrow> string list" where
  "str_split sep [] = [[]]"
| "str_split sep (c # cs) =
     (if c = sep then [] # str_split sep cs
      else (case str_split sep cs of [] \<Rightarrow> [[c]] | p # ps \<Rightarrow> (c # p) # ps))"

text \<open>\<open>index_from_end xs k\<close> is \<^verbatim>\<open>xs[-k]\<close> for \<open>k > 0\<close>; out of range it raises IndexError.\<close>

definition index_from_end :: "'a list \<Rightarrow> nat \<Rightarrow> exn + 'a" where
  "index_from_end xs k =
     (if 0 < k \<and> k \<le> length xs then Inr (xs ! (length xs - k)) else Inl IndexError)"

text \<open>\<open>starts_with p s\<close> is \<^verbatim>\<open>s.startswith(p)\<close>, \<open>str_contains sub s\<close> is \<^verbatim>\<open>sub in s\<close>.\<close>

fun starts_with :: "string \<Rightarrow> string \<Rightarrow> bool" where
  "starts_with [] s = True"
| "starts_with (p # ps) [] = False"
| "starts_with (p # ps) (c # cs) = (p = c \<and> starts_with ps cs)"

fun str_contains :: "string \<Rightarrow> string \<Rightarrow> bool" where
  "str_contains sub [] = (sub = [])"
| "str_contains sub (c # cs) = (starts_with sub (c # cs) \<or> str_contains sub cs)"

text \<open>\<open>rfind c s\<close> is \<^verbatim>\<open>s.rfind(c)\<close>, with \<open>None\<close> for Python's \<open>-1\<close>.\<close>

fun rfind :: "char \<Rightarrow> string \<Rightarrow> nat option" where
  "rfind c [] = None"
| "rfind c (x # xs) =
     (case rfind c xs of
        Some i \<Rightarrow> Some (Suc i)
      | None \<Rightarrow> if x = c then Some 0 else None)"

text \<open>
  \<^verbatim>\<open>os.path.splitext\<close> on a base name (a name without directory separators): the
  extension starts at the last dot, unless only dots stand before it.
\<close>

definition splitext :: "string \<Rightarrow> string \<times> string" where
  "splitext p =
     (case rfind CHR ''.'' p of
        None \<Rightarrow> (p, [])
      | Some dotIndex \<Rightarrow>
          if list_ex (\<lambda>c. c \<noteq> CHR ''.'') (take dotIndex p)
          then (take dotIndex p, drop dotIndex p)
          else (p, []))"

subsection \<open>Date-times\<close>

record datetime =
  year :: nat
  month :: nat
  day :: nat
  hour :: nat
  minute :: nat
  second :: nat
  microsecond :: nat

definition is_leap :: "nat \<Rightarrow> bool" where
  "is_leap y = (y mod 4 = 0 \<and> (y mod 100 \<noteq> 0 \<or> y mod 400 = 0))"

definition days_in_month :: "nat \<Rightarrow> nat \<Rightarrow> nat" where
  "days_in_month y m =
     (if m = 2 then (if is_leap y then 29 else 28)
      else if m = 4 \<or> m = 6 \<or> m = 9 \<or> m = 11 then 30 else 31)"

text \<open>
  The constructor \<^verbatim>\<open>datetime(y, m, d, H, M, S)\<close>: a field out of range raises ValueError
  (years run from 1 to 9999, seconds to 59).
\<close>

definition make_datetime :: "nat \<Rightarrow> nat \<Rightarrow> nat \<Rightarrow> nat \<Rightarrow> nat \<Rightarrow> nat \<Rightarrow> exn + datetime" where
  "make_datetime y m d H M S =
     (if 1 \<le> y \<and> y \<le> 9999 \<and> 1 \<le> m \<and> m \<le> 12 \<and> 1 \<le> d \<and> d \<le> days_in_month y m
         \<and> H \<le> 23 \<and> M \<le> 59 \<and> S \<le> 59
      then Inr \<lparr>year = y, month = m, day = d, hour = H, minute = M, second = S,
                microsecond = 0\<rparr>
      else Inl ValueError)"

text \<open>
  \<^verbatim>\<open>datetime.strptime\<close> compiles its format into a regular expression and matches it
  at the start of the string with backtracking; the first match wins, and a match that
  leaves text unread is an error. A format is a list of items; a directive is a list
  of alternatives in the order the regular expression tries them, and an alternative
  is a list of character classes.
\<close>

datatype directive = DY | Dm | Dd | DH | DM | DS

datatype fmt_item = Field directive | Literal char | Spaces

definition digits :: string where
  "digits = ''0123456789''"

text \<open>
  The alternatives are those of CPython's \<^verbatim>\<open>_strptime.TimeRE\<close>:
  \<^verbatim>\<open>%Y = \d\d\d\d\<close>, \<^verbatim>\<open>%m = 1[0-2]|0[1-9]|[1-9]\<close>,
  \<^verbatim>\<open>%d = 3[0-1]|[1-2]\d|0[1-9]|[1-9]| [1-9]\<close>, \<^verbatim>\<open>%H = 2[0-3]|[0-1]\d|\d\<close>,
  \<^verbatim>\<open>%M = [0-5]\d|\d\<close>, \<^verbatim>\<open>%S = 6[0-1]|[0-5]\d|\d\<close>.
\<close>

fun alternatives :: "directive \<Rightarrow> string list list" where
  "alternatives DY = [[digits, digits, digits, digits]]"
| "alternatives Dm = [[''1'', ''012''], [''0'', ''123456789''], [''123456789'']]"
| "alternatives Dd = [[''3'', ''01''], [''12'', digits], [''0'', ''123456789''], [''123456789''],
                      ['' '', ''123456789'']]"
| "alternatives DH = [[''2'', ''0123''], [''01'', digits], [digits]]"
| "alternatives DM = [[''012345'', digits], [digits]]"
| "alternatives DS = [[''6'', ''01''], [''012345'', digits], [digits]]"

text \<open>One alternative against the start of a string: the text it reads and the rest.\<close>

fun match_alt :: "string list \<Rightarrow> string \<Rightarrow> (string \<times> string) option" where
  "match_alt [] s = Some ([], s)"
| "match_alt (cls # clss) [] = None"
| "match_alt (cls # clss) (c # cs) =
     (if c \<in> set cls
      then (case match_alt clss cs of None \<Rightarrow> None | Some (tok, rest) \<Rightarrow> Some (c # tok, rest))
      else None)"

text \<open>
  White space in a format becomes \<^verbatim>\<open>\s+\<close>: one or more white-space characters, the
  longest run first. In ASCII these are the codes 9 to 13, 28 to 32.
\<close>

definition is_space :: "char \<Rightarrow> bool" where
  "is_space c = (let n = (of_char c :: nat) in (9 \<le> n \<and> n \<le> 13) \<or> (28 \<le> n \<and> n \<le> 32))"

text \<open>
  All matches of a format at the start of a string, in the order a backtracking
  matcher finds them: each is the list of fields read and the unread rest.
\<close>

fun match_items :: "fmt_item list \<Rightarrow> string \<Rightarrow> ((directive \<times> string) list \<times> string) list" where
  "match_items [] s = [([], s)]"
| "match_items (Literal c # items) s =
     (case s of [] \<Rightarrow> [] | x # xs \<Rightarrow> if x = c then match_items items xs else [])"
| "match_items (Spaces # items) s =
     concat (map (\<lambda>k. match_items items (drop k s))
                 (rev [1 ..< Suc (length (takeWhile is_space s))]))"
| "match_items (Field d # items) s =
     concat (map (\<lambda>alt. case match_alt alt s of
                           None \<Rightarrow> []
                         | Some (tok, rest) \<Rightarrow>
                             map (\<lambda>(found, r). ((d, tok) # found, r)) (match_items items rest))
                 (alternatives d))"

text \<open>\<^verbatim>\<open>int(s)\<close> on the text of a field: decimal digits, a leading blank skipped.\<close>

definition int_of_field :: "string \<Rightarrow> nat" where
  "int_of_field s =
     foldl (\<lambda>n c. if c \<in> set digits then 10 * n + (of_char c - 48) else n) 0 s"

text \<open>The number read for a directive, or the value it has when the format lacks it.\<close>

definition field :: "directive \<Rightarrow> nat \<Rightarrow> (directive \<times> string) list \<Rightarrow> nat" where
  "field d missing found =
     (case map_of found d of None \<Rightarrow> missing | Some tok \<Rightarrow> int_of_field tok)"

text \<open>
  \<open>strptime s fmt\<close>: no match, unread text or a date that does not exist
  (\<^verbatim>\<open>2023-02-30\<close>, year 0, second 60) raise ValueError.
\<close>

definition strptime :: "string \<Rightarrow> fmt_item list \<Rightarrow> exn + datetime" where
  "strptime data_string fmt =
     (case match_items fmt data_string of
        [] \<Rightarrow> Inl ValueError
      | (found, rest) # _ \<Rightarrow>
          if rest \<noteq> [] then Inl ValueError
          else make_datetime (field DY 1900 found) (field Dm 1 found) (field Dd 1 found)
                             (field DH 0 found) (field DM 0 found) (field DS 0 found))"

text \<open>The two formats of the scripts: \<^verbatim>\<open>'%Y:%m:%d %H:%M:%S'\<close> and \<^verbatim>\<open>'%Y%m%d%H%M%S'\<close>.\<close>

definition tag_format :: "fmt_item list" where
  "tag_format = [Field DY, Literal CHR '':'', Field Dm, Literal CHR '':'', Field Dd, Spaces,
                 Field DH, Literal CHR '':'', Field DM, Literal CHR '':'', Field DS]"

definition filename_format :: "fmt_item list" where
  "filename_format = [Field DY, Field Dm, Field Dd, Field DH, Field DM, Field DS]"

text \<open>
  \<^verbatim>\<open>datetime.isoformat()\<close>: \<^verbatim>\<open>YYYY-MM-DDTHH:MM:SS\<close>, with the microseconds after a
  dot when they are not zero.
\<close>

fun zero_padded :: "nat \<Rightarrow> nat \<Rightarrow> string" where
  "zero_padded 0 n = []"
| "zero_padded (Suc w) n = zero_padded w (n div 10) @ [digits ! (n mod 10)]"

definition isoformat :: "datetime \<Rightarrow> string" where
  "isoformat dt =
     zero_padded 4 (year dt) @ ''-'' @ zero_padded 2 (month dt) @ ''-'' @ zero_padded 2 (day dt)
     @ ''T'' @ zero_padded 2 (hour dt) @ '':'' @ zero_padded 2 (minute dt) @ '':''
     @ zero_padded 2 (second dt)
     @ (if microsecond dt = 0 then [] else ''.'' @ zero_padded 6 (microsecond dt))"

subsection \<open>Identifiers\<close>

text \<open>
  \<^verbatim>\<open>uuid.uuid4()\<close> returns a 128-bit identifier drawn at random; the draw is an input
  of the model. \<^verbatim>\<open>str\<close> prints it as 32 hexadecimal digits, most significant first, in
  groups of 8, 4, 4, 4 and 12.
\<close>

type_synonym uuid = "128 word"

definition hexdigits :: string where
  "hexdigits = ''0123456789abcdef''"

definition nibble :: "uuid \<Rightarrow> nat \<Rightarrow> nat" where
  "nibble u i = unat (take_bit 4 (drop_bit (4 * i) u))"

definition hex32 :: "uuid \<Rightarrow> string" where
  "hex32 u = map (\<lambda>i. hexdigits ! nibble u (31 - i)) [0 ..< 32]"

definition str_uuid :: "uuid \<Rightarrow> string" where
  "str_uuid u =
     (let h = hex32 u
      in take 8 h @ ''-'' @ take 4 (drop 8 h) @ ''-'' @ take 4 (drop 12 h) @ ''-''
         @ take 4 (drop 16 h) @ ''-'' @ drop 20 h)"

section \<open>Raster files and the libraries around them\<close>

text \<open>
  Coordinates and affine coefficients are floating-point numbers that the scripts only
  pass on; their type is the parameter \<open>'c\<close>. Bounds are the tuple
  \<open>(left, bottom, right, top)\<close>, an affine transform its coefficients
  \<open>(a, b, c, d, e, f)\<close>, and a geometry the GeoJSON polygon with its rings.
\<close>

type_synonym 'c bounds = "'c \<times> 'c \<times> 'c \<times> 'c"

type_synonym 'c affine = "'c \<times> 'c \<times> 'c \<times> 'c \<times> 'c \<times> 'c"

datatype 'c geojson = Polygon "('c \<times> 'c) list list"

text \<open>
  What an opened raster exposes. \<open>crs\<close> is \<open>None\<close> when the file has no spatial
  reference, and otherwise the reference by its authority string; the comparison with
  \<^verbatim>\<open>"EPSG:4326"\<close> is the comparison of these strings. \<open>tags\<close> is what \<^verbatim>\<open>src.tags()\<close>
  gives: the tag dictionary, or an exception.
\<close>

record 'c raster_source =
  crs :: "string option"
  bounds :: "'c bounds"
  shape :: "nat \<times> nat"
  transform :: "'c affine"
  tags :: "exn + (string \<rightharpoonup> string)"

text \<open>
  A file that \<^verbatim>\<open>glob\<close> found: its path, its base name (\<^verbatim>\<open>os.path.basename\<close> of the
  path) and what \<^verbatim>\<open>rasterio.open\<close> gives for it.
\<close>

record 'c tif_file =
  tif_path :: string
  filename :: string
  opened :: "exn + 'c raster_source"

text \<open>\<^verbatim>\<open>rasterio.warp\<close>: both reprojections can raise.\<close>

record 'c warp =
  transform_bounds :: "string \<Rightarrow> string \<Rightarrow> 'c bounds \<Rightarrow> exn + 'c bounds"
  transform_geom :: "string \<Rightarrow> string \<Rightarrow> 'c geojson \<Rightarrow> exn + 'c geojson"

text \<open>
  \<^verbatim>\<open>mapping(box(left, bottom, right, top))\<close>: the rectangle as a ring, counter-clockwise
  from the lower right corner. The ring is closed by its first point, unless its last
  point is that point already (a rectangle with \<open>left = right\<close>).
\<close>

definition mapping_box :: "'c bounds \<Rightarrow> 'c geojson" where
  "mapping_box b =
     (case b of (minx, miny, maxx, maxy) \<Rightarrow>
        Polygon [if (maxx, miny) = (minx, miny)
                 then [(maxx, miny), (maxx, maxy), (minx, maxy), (minx, miny)]
                 else [(maxx, miny), (maxx, maxy), (minx, maxy), (minx, miny), (maxx, miny)]])"

text \<open>What the scripts print, one constructor for each message.\<close>

datatype log_line =
    SkipNoCRS string
  | TagTimeRead datetime
  | WarnTagFailed string
  | FilenameTimeRead datetime
  | WarnUsingNow string
  | FoundFiles nat
  | Processing string
  | ErrorProcessing string
  | NoTifFound
  | FormatError string string
  | NewlyAdded string
  | WriteFailed string
  | ProcessingException string
  | IndexingDone nat

section \<open>Acquisition time\<close>

text \<open>
  \<^verbatim>\<open>tags.get('TIFFTAG_DATETIME') or tags.get('DATETIME')\<close>: the first value if it is a
  non-empty string, the second otherwise.
\<close>

definition datetime_str :: "(string \<rightharpoonup> string) \<Rightarrow> string option" where
  "datetime_str t =
     (case t ''TIFFTAG_DATETIME'' of
        None \<Rightarrow> t ''DATETIME''
      | Some s \<Rightarrow> if s \<noteq> [] then Some s else t ''DATETIME'')"

text \<open>
  The body of the \<^verbatim>\<open>try\<close> that reads the time from the tags (lines 67 to 73 of
  \<^verbatim>\<open>01_create_stac.py\<close>, 103 to 105 of \<^verbatim>\<open>03_test_dataset.py\<close>): no tag leaves the time
  unset, a tag that does not parse raises.
\<close>

definition tag_datetime :: "'c raster_source \<Rightarrow> exn + datetime option" where
  "tag_datetime src =
     (case tags src of
        Inl e \<Rightarrow> Inl e
      | Inr t \<Rightarrow>
          (case datetime_str t of
             None \<Rightarrow> Inr None
           | Some s \<Rightarrow>
               if s = [] then Inr None
               else (case strptime s tag_format of Inl e \<Rightarrow> Inl e | Inr d \<Rightarrow> Inr (Some d))))"

text \<open>
  The body of the \<^verbatim>\<open>try\<close> that reads the time from the file name (lines 82 to 89 and
  112 to 114): the third token from the end when the last one is \<^verbatim>\<open>preview\<close>, the
  second from the end otherwise.
\<close>

definition filename_datetime :: "string \<Rightarrow> exn + datetime" where
  "filename_datetime item_id =
     (let parts = str_split CHR ''_'' item_id
      in case index_from_end parts 1 of
           Inl e \<Rightarrow> Inl e
         | Inr final \<Rightarrow>
             (case (if final = ''preview'' then index_from_end parts 3
                    else index_from_end parts 2) of
                Inl e \<Rightarrow> Inl e
              | Inr timestamp_str \<Rightarrow> strptime timestamp_str filename_format))"

section \<open>Indexing mode: \<^verbatim>\<open>03_test_dataset.py\<close>\<close>

record 'c metadata =
  m_id :: string
  m_datetime :: datetime
  m_geometry :: "'c geojson"
  product_name :: string
  band_name :: string
  m_shape :: "nat \<times> nat"
  m_transform :: "'c affine"

text \<open>
  \<^verbatim>\<open>get_metadata_from_tif\<close>; \<open>None\<close> is its \<^verbatim>\<open>return None\<close>. Every exception inside is
  caught by a bare \<^verbatim>\<open>except\<close>.
\<close>

definition get_metadata_from_tif :: "'c warp \<Rightarrow> 'c tif_file \<Rightarrow> 'c metadata option" where
  "get_metadata_from_tif W tif =
     (let item_id = fst (splitext (filename tif))
      in case opened tif of
           Inl e \<Rightarrow> None
         | Inr src \<Rightarrow>
             (case crs src of
                None \<Rightarrow> None
              | Some src_crs \<Rightarrow>
                  (case (if src_crs \<noteq> ''EPSG:4326''
                         then transform_geom W src_crs ''EPSG:4326'' (mapping_box (bounds src))
                         else Inr (mapping_box (bounds src))) of
                     Inl e \<Rightarrow> None
                   | Inr geom_wgs84 \<Rightarrow>
                       (case (case tag_datetime src of
                                Inr (Some d) \<Rightarrow> Inr d
                              | _ \<Rightarrow> filename_datetime item_id) of
                          Inl e \<Rightarrow> None
                        | Inr item_datetime \<Rightarrow>
                            if str_contains ''_GEC_HH_'' item_id
                            then Some \<lparr>m_id = item_id, m_datetime = item_datetime,
                                       m_geometry = geom_wgs84,
                                       product_name = ''capella_gec_hh'', band_name = ''hh'',
                                       m_shape = shape src, m_transform = transform src\<rparr>
                            else if str_contains ''_GEC_VV_'' item_id
                            then Some \<lparr>m_id = item_id, m_datetime = item_datetime,
                                       m_geometry = geom_wgs84,
                                       product_name = ''capella_gec_vv'', band_name = ''vv'',
                                       m_shape = shape src, m_transform = transform src\<rparr>
                            else None))))"

text \<open>
  The dataset document of \<^verbatim>\<open>build_eo3_dict\<close>, with the nested dictionaries flattened
  into fields. The constant key \<^verbatim>\<open>lineage\<close> (an empty dictionary) is left out.
\<close>

record 'c eo3_doc =
  doc_id :: string
  product :: string
  label :: string
  location :: string
  doc_crs :: string
  processing_datetime :: string
  doc_datetime :: string
  capella_filename :: string
  doc_geometry :: "'c geojson"
  grid_shape :: "nat list"
  grid_transform :: "'c list"
  grid_crs :: string
  measurements :: "(string \<times> string) list"

text \<open>
  \<^verbatim>\<open>build_eo3_dict(metadata, tif_path)\<close>. Its three reads of the outside world are
  arguments: \<open>to_uri\<close> is \<^verbatim>\<open>Path(os.path.abspath(p)).as_uri()\<close>, \<open>u\<close> the identifier
  that \<^verbatim>\<open>uuid.uuid4()\<close> draws in this call and \<open>wall_clock\<close> the clock read by
  \<^verbatim>\<open>datetime.now()\<close>.
\<close>

definition build_eo3_dict ::
  "(string \<Rightarrow> string) \<Rightarrow> uuid \<Rightarrow> datetime \<Rightarrow> 'c metadata \<Rightarrow> 'c tif_file \<Rightarrow> 'c eo3_doc" where
  "build_eo3_dict to_uri u wall_clock metadata tif =
     (let dataset_uuid = str_uuid u;
          tif_uri = to_uri (tif_path tif)
      in \<lparr>doc_id = dataset_uuid,
          product = product_name metadata,
          label = m_id metadata,
          location = tif_uri,
          doc_crs = ''EPSG:4326'',
          processing_datetime = isoformat wall_clock,
          doc_datetime = isoformat (m_datetime metadata),
          capella_filename = m_id metadata,
          doc_geometry = m_geometry metadata,
          grid_shape = (case m_shape metadata of (rows, cols) \<Rightarrow> [rows, cols]),
          grid_transform =
            (case m_transform metadata of (a, b, c, d, e, f) \<Rightarrow> [a, b, c, d, e, f]),
          grid_crs = ''EPSG:4326'',
          measurements = [(band_name metadata, filename tif)]\<rparr>)"

text \<open>
  The world around \<^verbatim>\<open>main\<close>: the reprojection library, the path functions, the
  draws of \<^verbatim>\<open>uuid4\<close> and the clock (the \<open>n\<close>-th document built reads \<open>uuid4 n\<close> and
  \<open>clock n\<close>; \<open>path_uri\<close> is \<^verbatim>\<open>Path(os.path.abspath(p)).as_uri()\<close>), the file system (\<open>dump p\<close> is the exception that writing the YAML file
  \<open>p\<close> raises, if any) and the Open Data Cube index over states \<open>'ix\<close> and resolved
  datasets \<open>'ds\<close>. \<open>resolver\<close> returns the pair \<^verbatim>\<open>(dataset, err_msg)\<close>; \<open>update\<close> and
  \<open>add\<close> return the changed index or raise, and a call that raises leaves the index
  as it was.
\<close>

record ('c, 'ix, 'ds) env =
  warp :: "'c warp"
  join :: "string \<Rightarrow> string \<Rightarrow> string"
  path_uri :: "string \<Rightarrow> string"
  uuid4 :: "nat \<Rightarrow> uuid"
  clock :: "nat \<Rightarrow> datetime"
  dump :: "string \<Rightarrow> exn option"
  resolver :: "'ix \<Rightarrow> 'c eo3_doc \<Rightarrow> string \<Rightarrow> exn + ('ds \<times> string option)"
  update :: "'ix \<Rightarrow> 'ds \<Rightarrow> exn + 'ix"
  add :: "'ix \<Rightarrow> 'ds \<Rightarrow> exn + 'ix"

text \<open>
  The state of the loop of \<^verbatim>\<open>main\<close>: the index, the counter, the YAML files written,
  the number of documents built and the lines printed.
\<close>

record ('c, 'ix) state =
  index :: 'ix
  success_count :: nat
  written :: "(string \<times> 'c eo3_doc) list"
  built :: nat
  printed :: "log_line list"

definition say :: "log_line \<Rightarrow> ('c, 'ix) state \<Rightarrow> ('c, 'ix) state" where
  "say l st = st\<lparr>printed := printed st @ [l]\<rparr>"

definition ODC_DATASET_DIR :: string where
  "ODC_DATASET_DIR = ''odc_datasets''"

text \<open>
  Lines 211 to 232, the \<^verbatim>\<open>try\<close> that submits one document to the index. The handler
  of \<^verbatim>\<open>update\<close> catches ValueError only; every other exception reaches the outer
  \<^verbatim>\<open>except Exception\<close>.
\<close>

definition index_dataset ::
  "('c, 'ix, 'ds) env \<Rightarrow> ('c, 'ix) state \<Rightarrow> 'c metadata \<Rightarrow> 'c eo3_doc \<Rightarrow> string
     \<Rightarrow> ('c, 'ix) state" where
  "index_dataset E st meta doc_dict yaml_path =
     (case resolver E (index st) doc_dict (path_uri E yaml_path) of
        Inl e \<Rightarrow> say (ProcessingException (m_id meta)) st
      | Inr (dataset, err_msg) \<Rightarrow>
          (case err_msg of
             Some (c # msg) \<Rightarrow> say (FormatError (m_id meta) (c # msg)) st
           | _ \<Rightarrow>
               (case update E (index st) dataset of
                  Inr ix \<Rightarrow> st\<lparr>index := ix, success_count := success_count st + 1\<rparr>
                | Inl e \<Rightarrow>
                    if e = ValueError
                    then (case add E (index st) dataset of
                            Inr ix \<Rightarrow>
                              say (NewlyAdded (m_id meta))
                                  (st\<lparr>index := ix, success_count := success_count st + 1\<rparr>)
                          | Inl e' \<Rightarrow> say (WriteFailed (m_id meta)) st)
                    else say (ProcessingException (m_id meta)) st)))"

text \<open>
  Lines 202 to 232, the body of the loop for one file. Writing the YAML file stands
  outside every \<^verbatim>\<open>try\<close>: an exception there leaves \<^verbatim>\<open>main\<close>.
\<close>

definition process_tif ::
  "('c, 'ix, 'ds) env \<Rightarrow> ('c, 'ix) state \<Rightarrow> 'c tif_file \<Rightarrow> exn + ('c, 'ix) state" where
  "process_tif E st tif =
     (case get_metadata_from_tif (warp E) tif of
        None \<Rightarrow> Inr st
      | Some meta \<Rightarrow>
          (let doc_dict = build_eo3_dict (path_uri E) (uuid4 E (built st)) (clock E (built st)) meta tif;
               yaml_path = join E ODC_DATASET_DIR (''ds_'' @ m_id meta @ ''.yaml'');
               st1 = st\<lparr>built := built st + 1\<rparr>
           in case dump E yaml_path of
                Some e \<Rightarrow> Inl e
              | None \<Rightarrow>
                  Inr (index_dataset E (st1\<lparr>written := written st1 @ [(yaml_path, doc_dict)]\<rparr>)
                         meta doc_dict yaml_path)))"

fun index_loop ::
  "('c, 'ix, 'ds) env \<Rightarrow> ('c, 'ix) state \<Rightarrow> 'c tif_file list \<Rightarrow> exn + ('c, 'ix) state" where
  "index_loop E st [] = Inr st"
| "index_loop E st (tif # tifs) =
     (case process_tif E st tif of
        Inl e \<Rightarrow> Inl e
      | Inr st' \<Rightarrow> index_loop E st' tifs)"

text \<open>
  How a run of a script goes on after its loop over the files: \<^verbatim>\<open>raise SystemExit(msg)\<close>
  ends the process with status 1, a \<^verbatim>\<open>return\<close> from \<^verbatim>\<open>main\<close> ends it normally with
  status 0, an exception nobody catches ends it with status 1, and otherwise the script
  goes on to its later steps (not modelled), with the result of the loop.
\<close>

datatype 'a run = SystemExit | Returned "log_line list" | Uncaught exn | Continues 'a

fun exit_status :: "'a run \<Rightarrow> nat option" where
  "exit_status SystemExit = Some 1"
| "exit_status (Returned l) = Some 0"
| "exit_status (Uncaught e) = Some 1"
| "exit_status (Continues r) = None"

text \<open>
  Step 3 of \<^verbatim>\<open>main\<close> (lines 186 to 234), from the index \<open>ix\<close> that
  \<^verbatim>\<open>datacube.Datacube\<close> opened and the list \<open>tif_files\<close> that \<^verbatim>\<open>glob\<close> returned.
\<close>

definition main :: "('c, 'ix, 'ds) env \<Rightarrow> 'ix \<Rightarrow> 'c tif_file list \<Rightarrow> ('c, 'ix) state run" where
  "main E ix tif_files =
     (if tif_files = [] then Returned [NoTifFound]
      else (case index_loop E
                   \<lparr>index = ix, success_count = 0, written = [], built = 0,
                      printed = [FoundFiles (length tif_files)]\<rparr> tif_files of
              Inl e \<Rightarrow> Uncaught e
            | Inr st \<Rightarrow> Continues (say (IndexingDone (success_count st)) st)))"

section \<open>Browsing mode: \<^verbatim>\<open>01_create_stac.py\<close>\<close>

text \<open>
  \<^verbatim>\<open>get_stac_info_from_tif\<close>, with \<open>wall_clock\<close> the clock that \<^verbatim>\<open>datetime.now()\<close> reads at
  line 94. The result is what the call prints and either the exception it raises
  (opening and reprojecting are in no \<^verbatim>\<open>try\<close> here), \<open>None\<close> for the four
  \<^verbatim>\<open>None\<close>s of line 48, or \<open>(item_id, item_datetime, bbox_wgs84, geom_wgs84)\<close>.
\<close>

type_synonym 'c stac_info = "string \<times> datetime \<times> 'c bounds \<times> 'c geojson"

definition get_stac_info_from_tif ::
  "'c warp \<Rightarrow> datetime \<Rightarrow> 'c tif_file \<Rightarrow> log_line list \<times> (exn + 'c stac_info option)" where
  "get_stac_info_from_tif W wall_clock tif =
     (let item_id = fst (splitext (filename tif))
      in case opened tif of
           Inl e \<Rightarrow> ([], Inl e)
         | Inr src \<Rightarrow>
             (case crs src of
                None \<Rightarrow> ([SkipNoCRS (filename tif)], Inr None)
              | Some src_crs \<Rightarrow>
                  (case (if src_crs \<noteq> ''EPSG:4326''
                         then (case transform_bounds W src_crs ''EPSG:4326'' (bounds src) of
                                 Inl e \<Rightarrow> Inl e
                               | Inr bbox \<Rightarrow>
                                   (case transform_geom W src_crs ''EPSG:4326''
                                           (mapping_box (bounds src)) of
                                      Inl e \<Rightarrow> Inl e
                                    | Inr geom \<Rightarrow> Inr (bbox, geom)))
                         else Inr (bounds src, mapping_box (bounds src))) of
                     Inl e \<Rightarrow> ([], Inl e)
                   | Inr (bbox_wgs84, geom_wgs84) \<Rightarrow>
                       (case tag_datetime src of
                          Inr (Some d) \<Rightarrow>
                            ([TagTimeRead d], Inr (Some (item_id, d, bbox_wgs84, geom_wgs84)))
                        | r \<Rightarrow>
                            (let warned = (case r of Inl e \<Rightarrow> [WarnTagFailed (filename tif)]
                                                   | Inr x \<Rightarrow> [])
                             in case filename_datetime item_id of
                                  Inr d \<Rightarrow>
                                    (warned @ [FilenameTimeRead d],
                                     Inr (Some (item_id, d, bbox_wgs84, geom_wgs84)))
                                | Inl e \<Rightarrow>
                                    (warned @ [WarnUsingNow (filename tif)],
                                     Inr (Some (item_id, wall_clock, bbox_wgs84, geom_wgs84))))))))"

text \<open>The catalog item and its one asset, under the key \<^verbatim>\<open>data\<close>.\<close>

record asset =
  href :: string
  media_type :: string
  title :: string
  roles :: "string list"

record 'c stac_item =
  item_id :: string
  geometry :: "'c geojson"
  bbox :: "'c bounds"
  item_datetime :: datetime
  assets :: "(string \<times> asset) list"

text \<open>Lines 155 to 159: the roles of the asset, from the file name.\<close>

definition asset_roles :: "string \<Rightarrow> string list" where
  "asset_roles name =
     (if str_contains ''preview'' name then [''thumbnail'']
      else if str_contains ''GEC'' name \<or> str_contains ''GEO'' name then [''data'', ''visual'']
      else [''data''])"

text \<open>
  Lines 129 to 175, the body of the loop for one file, on the items of the collection
  and the lines printed so far. \<open>abspath\<close> is \<^verbatim>\<open>os.path.abspath\<close>. The whole body is
  in a \<^verbatim>\<open>try\<close>: an exception is printed and the loop goes on.
\<close>

definition add_tif ::
  "'c warp \<Rightarrow> (string \<Rightarrow> string) \<Rightarrow> datetime \<Rightarrow> 'c stac_item list \<times> log_line list
     \<Rightarrow> 'c tif_file \<Rightarrow> 'c stac_item list \<times> log_line list" where
  "add_tif W abspath wall_clock acc tif =
     (case acc of (items, out) \<Rightarrow>
        (case get_stac_info_from_tif W wall_clock tif of
           (said, Inl e) \<Rightarrow>
             (items, out @ [Processing (filename tif)] @ said @ [ErrorProcessing (tif_path tif)])
         | (said, Inr None) \<Rightarrow> (items, out @ [Processing (filename tif)] @ said)
         | (said, Inr (Some (iid, dt, bbox_wgs84, geom_wgs84))) \<Rightarrow>
             (items @ [\<lparr>item_id = iid, geometry = geom_wgs84, bbox = bbox_wgs84,
                         item_datetime = dt,
                         assets = [(''data'',
                                    \<lparr>href = abspath (tif_path tif),
                                       media_type = ''image/tiff; application=geotiff'',
                                       title = iid @ '' (GeoTIFF)'',
                                       roles = asset_roles (filename tif)\<rparr>)]\<rparr>],
              out @ [Processing (filename tif)] @ said)))"

text \<open>
  The loop of lines 128 to 175; \<open>time_at k\<close> is the clock while the \<open>k\<close>-th file of the
  run is processed.
\<close>

fun add_tifs ::
  "'c warp \<Rightarrow> (string \<Rightarrow> string) \<Rightarrow> (nat \<Rightarrow> datetime) \<Rightarrow> nat
     \<Rightarrow> 'c stac_item list \<times> log_line list \<Rightarrow> 'c tif_file list
     \<Rightarrow> 'c stac_item list \<times> log_line list" where
  "add_tifs W abspath time_at k acc [] = acc"
| "add_tifs W abspath time_at k acc (tif # tifs) =
     add_tifs W abspath time_at (Suc k) (add_tif W abspath (time_at k) acc tif) tifs"

text \<open>
  Section 4 of the script (lines 122 to 175), from the list that \<^verbatim>\<open>glob\<close> returned:
  the items added to the collection and the lines printed.
\<close>

definition create_stac ::
  "'c warp \<Rightarrow> (string \<Rightarrow> string) \<Rightarrow> (nat \<Rightarrow> datetime) \<Rightarrow> 'c tif_file list
     \<Rightarrow> ('c stac_item list \<times> log_line list) run" where
  "create_stac W abspath time_at tif_files =
     (if tif_files = [] then SystemExit
      else Continues (add_tifs W abspath time_at 0 ([], [FoundFiles (length tif_files)]) tif_files))"

section \<open>Example inputs\<close>

text \<open>
  A raster in the canonical reference with no tags, a reprojection library that
  returns its argument, and a file of a given name holding a given raster.
\<close>

definition example_warp :: "int warp" where
  "example_warp = \<lparr>transform_bounds = (\<lambda>src dst b. Inr b), transform_geom = (\<lambda>src dst g. Inr g)\<rparr>"

definition example_raster :: "int raster_source" where
  "example_raster =
     \<lparr>crs = Some ''EPSG:4326'', bounds = (0, 0, 1, 1), shape = (2, 2),
        transform = (1, 0, 0, 0, 1, 0), tags = Inr Map.empty\<rparr>"

definition example_file :: "string \<Rightarrow> int raster_source \<Rightarrow> int tif_file" where
  "example_file name src = \<lparr>tif_path = ''cog_files/'' @ name, filename = name, opened = Inr src\<rparr>"

definition new_year_2023 :: datetime where
  "new_year_2023 =
     \<lparr>year = 2023, month = 1, day = 1, hour = 0, minute = 0, second = 0, microsecond = 0\<rparr>"

definition example_clock :: datetime where
  "example_clock =
     \<lparr>year = 2026, month = 11, day = 4, hour = 12, minute = 0, second = 0, microsecond = 0\<rparr>"

definition frozen_clock :: "nat \<Rightarrow> datetime" where
  "frozen_clock k = example_clock"

text \<open>The same raster without a spatial reference.\<close>

definition unreferenced_raster :: "int raster_source" where
  "unreferenced_raster = example_raster\<lparr>crs := None\<rparr>"





text \<open>
  The metadata of the file \<^verbatim>\<open>X_GEC_HH_20230101000000_Y.tif\<close> on the example raster, and
  a world for \<^verbatim>\<open>main\<close>: the index is the list of the identifiers registered, a
  document resolves to its identifier, an update needs the identifier in the index
  and an insertion puts it there.
\<close>

definition example_metadata :: "int metadata" where
  "example_metadata =
     \<lparr>m_id = ''X_GEC_HH_20230101000000_Y'', m_datetime = new_year_2023,
        m_geometry = Polygon [[(1, 0), (1, 1), (0, 1), (0, 0), (1, 0)]],
        product_name = ''capella_gec_hh'', band_name = ''hh'',
        m_shape = (2, 2), m_transform = (1, 0, 0, 0, 1, 0)\<rparr>"

definition example_env :: "(int, string list, string) env" where
  "example_env =
     \<lparr>warp = example_warp,
        join = (\<lambda>a b. a @ ''/'' @ b),
        path_uri = (\<lambda>p. ''file:///'' @ p),
        uuid4 = of_nat,
        clock = frozen_clock,
        dump = (\<lambda>p. None),
        resolver = (\<lambda>ix d uri. Inr (doc_id d, None)),
        update = (\<lambda>ix d. if d \<in> set ix then Inr ix else Inl ValueError),
        add = (\<lambda>ix d. Inr (d # ix))\<rparr>"

text \<open>The same world with an index that refuses every insertion.\<close>

definition closed_index_env :: "(int, string list, string) env" where
  "closed_index_env = example_env\<lparr>add := (\<lambda>ix d. Inl OtherException)\<rparr>"

definition start_state :: "string list \<Rightarrow> (int, string list) state" where
  "start_state ix = \<lparr>index = ix, success_count = 0, written = [], built = 0, printed = []\<rparr>"

definition example_doc :: "int eo3_doc" where
  "example_doc =
     \<lparr>doc_id = ''00000000-0000-0000-0000-000000000000'',
        product = ''capella_gec_hh'',
        label = ''X_GEC_HH_20230101000000_Y'',
        location = ''file:///cog_files/X_GEC_HH_20230101000000_Y.tif'',
        doc_crs = ''EPSG:4326'',
        processing_datetime = ''2026-11-04T12:00:00'',
        doc_datetime = ''2023-01-01T00:00:00'',
        capella_filename = ''X_GEC_HH_20230101000000_Y'',
        doc_geometry = Polygon [[(1, 0), (1, 1), (0, 1), (0, 0), (1, 0)]],
        grid_shape = [2, 2],
        grid_transform = [1, 0, 0, 0, 1, 0],
        grid_crs = ''EPSG:4326'',
        measurements = [(''hh'', ''X_GEC_HH_20230101000000_Y.tif'')]\<rparr>"

text \<open>
  Three files of the example raster, and the example world with a file system that
  refuses to write the document of the second.
\<close>

definition file_A :: "int tif_file" where
  "file_A = example_file ''A_GEC_HH_20230101000000_Y.tif'' example_raster"

definition file_B :: "int tif_file" where
  "file_B = example_file ''B_GEC_HH_20230101000000_Y.tif'' example_raster"

definition file_C :: "int tif_file" where
  "file_C = example_file ''C_GEC_HH_20230101000000_Y.tif'' example_raster"

definition unwritable_B_env :: "(int, string list, string) env" where
  "unwritable_B_env =
     example_env\<lparr>dump := (\<lambda>p. if p = ''odc_datasets/ds_B_GEC_HH_20230101000000_Y.yaml''
                                  then Some OtherException else None)\<rparr>"

text \<open>A file that \<^verbatim>\<open>rasterio.open\<close> cannot open.\<close>

definition unreadable_B :: "int tif_file" where
  "unreadable_B =
     \<lparr>tif_path = ''cog_files/B_GEC_HH_20230101000000_Y.tif'',
        filename = ''B_GEC_HH_20230101000000_Y.tif'', opened = Inl OtherException\<rparr>"

section \<open>Facts about the string functions\<close>

text \<open>\<open>starts_with\<close> and \<open>str_contains\<close> are the prefix and the substring relation.\<close>

lemma starts_with_iff: "starts_with p s \<longleftrightarrow> (\<exists>b. s = p @ b)"
  by (induction p s rule: starts_with.induct) auto

lemma str_contains_iff: "str_contains sub s \<longleftrightarrow> (\<exists>a b. s = a @ sub @ b)"
proof (induction s)
  case Nil
  then show ?case by auto
next
  case (Cons c cs)
  show ?case
  proof
    assume "str_contains sub (c # cs)"
    then consider "starts_with sub (c # cs)" | "str_contains sub cs" by auto
    then show "\<exists>a b. c # cs = a @ sub @ b"
    proof cases
      case 1
      then obtain b where "c # cs = sub @ b" by (auto simp: starts_with_iff)
      then have "c # cs = [] @ sub @ b" by simp
      then show ?thesis by blast
    next
      case 2
      with Cons obtain a b where "cs = a @ sub @ b" by blast
      then have "c # cs = (c # a) @ sub @ b" by simp
      then show ?thesis by blast
    qed
  next
    assume "\<exists>a b. c # cs = a @ sub @ b"
    then obtain a b where ab: "c # cs = a @ sub @ b" by blast
    show "str_contains sub (c # cs)"
    proof (cases a)
      case Nil
      with ab have "starts_with sub (c # cs)" by (auto simp: starts_with_iff)
      then show ?thesis by simp
    next
      case (Cons x xs)
      with ab have "cs = xs @ sub @ b" by simp
      with Cons.IH have "str_contains sub cs" by blast
      then show ?thesis by simp
    qed
  qed
qed

section \<open>Facts about the example inputs\<close>

lemma example_raster_facts:
  "crs example_raster = Some ''EPSG:4326''"
  "tag_datetime example_raster = Inr None"
  by code_simp+

lemma example_marked_metadata:
  "get_metadata_from_tif example_warp (example_file ''X_GEC_HH_20230101000000_Y.tif'' example_raster)
     = Some \<lparr>m_id = ''X_GEC_HH_20230101000000_Y'', m_datetime = new_year_2023,
              m_geometry = Polygon [[(1, 0), (1, 1), (0, 1), (0, 0), (1, 0)]],
              product_name = ''capella_gec_hh'', band_name = ''hh'',
              m_shape = (2, 2), m_transform = (1, 0, 0, 0, 1, 0)\<rparr>"
  by code_simp

section \<open>The scenario file names\<close>

lemma scenario_stems:
  "splitext ''X_GEC_HH_20230101000000.tif'' = (''X_GEC_HH_20230101000000'', ''.tif'')"
  "splitext ''X_GEC_HH_20230101000000_Y.tif'' = (''X_GEC_HH_20230101000000_Y'', ''.tif'')"
  by code_simp+

lemma scenario_tokens:
  "str_split CHR ''_'' ''X_GEC_HH_20230101000000'' = [''X'', ''GEC'', ''HH'', ''20230101000000'']"
  "strptime ''HH'' filename_format = Inl ValueError"
  "strptime ''20230101000000'' filename_format = Inr new_year_2023"
  by code_simp+

lemma scenario_filename_datetime:
  "filename_datetime ''X_GEC_HH_20230101000000'' = Inl ValueError"
  "filename_datetime ''X_GEC_HH_20230101000000_Y'' = Inr new_year_2023"
  by code_simp+

lemma scenario_markers:
  "str_contains ''_GEC_HH_'' ''X_GEC_HH_20230101000000_Y''"
  by code_simp

lemma isoformat_new_year_2023: "isoformat new_year_2023 = ''2023-01-01T00:00:00''"
  by code_simp

lemma untagged_falls_to_filename:
  assumes "\<forall>d. tag_datetime src \<noteq> Inr (Some d)"
  shows "(case tag_datetime src of Inr (Some d) \<Rightarrow> Inr d | _ \<Rightarrow> filename_datetime stem)
           = filename_datetime stem"
  using assms by (auto split: sum.splits option.splits)

text \<open>
  Claim C1, as amended. For the file name \<^verbatim>\<open>X_GEC_HH_20230101000000.tif\<close>, on a raster
  with a spatial reference and no valid embedded date-time tag, the indexing-mode
  extraction returns nothing: the time is looked for in the second token from the
  end, \<^verbatim>\<open>HH\<close>, which is no time. With the time in that place, as in
  \<^verbatim>\<open>X_GEC_HH_20230101000000_Y.tif\<close>, and a footprint that reprojects, the file is
  classified as product \<^verbatim>\<open>capella_gec_hh\<close> with band \<^verbatim>\<open>hh\<close> and the acquisition time
  2023-01-01T00:00:00 read from the file name.
\<close>

theorem scenario_time_is_second_token_from_end:
  fixes W :: "'c warp" and tif :: "'c tif_file"
  assumes "opened tif = Inr src" and "crs src = Some c"
      and "\<forall>d. tag_datetime src \<noteq> Inr (Some d)"
  shows "(filename tif = ''X_GEC_HH_20230101000000.tif'' \<longrightarrow> get_metadata_from_tif W tif = None)
       \<and> (filename tif = ''X_GEC_HH_20230101000000_Y.tif''
            \<and> (c = ''EPSG:4326''
                \<or> (\<exists>g. transform_geom W c ''EPSG:4326'' (mapping_box (bounds src)) = Inr g)) \<longrightarrow>
          (\<exists>m. get_metadata_from_tif W tif = Some m
               \<and> product_name m = ''capella_gec_hh'' \<and> band_name m = ''hh''
               \<and> m_datetime m = new_year_2023
               \<and> isoformat (m_datetime m) = ''2023-01-01T00:00:00''))"
proof (intro conjI impI)
  assume "filename tif = ''X_GEC_HH_20230101000000.tif''"
  then show "get_metadata_from_tif W tif = None"
    using assms(1,2) untagged_falls_to_filename [OF assms(3)]
    unfolding get_metadata_from_tif_def Let_def
    by (simp add: scenario_stems scenario_filename_datetime split: sum.splits)
next
  assume a: "filename tif = ''X_GEC_HH_20230101000000_Y.tif''
            \<and> (c = ''EPSG:4326''
                \<or> (\<exists>g. transform_geom W c ''EPSG:4326'' (mapping_box (bounds src)) = Inr g))"
  then obtain g where
    g: "(if c \<noteq> ''EPSG:4326'' then transform_geom W c ''EPSG:4326'' (mapping_box (bounds src))
         else Inr (mapping_box (bounds src))) = Inr g"
    by (cases "c = ''EPSG:4326''") auto
  have "get_metadata_from_tif W tif
          = Some \<lparr>m_id = ''X_GEC_HH_20230101000000_Y'', m_datetime = new_year_2023,
                   m_geometry = g, product_name = ''capella_gec_hh'', band_name = ''hh'',
                   m_shape = shape src, m_transform = transform src\<rparr>"
    using a assms(1,2) g untagged_falls_to_filename [OF assms(3)]
    unfolding get_metadata_from_tif_def Let_def
    by (simp add: scenario_stems scenario_filename_datetime scenario_markers)
  then show "\<exists>m. get_metadata_from_tif W tif = Some m
               \<and> product_name m = ''capella_gec_hh'' \<and> band_name m = ''hh''
               \<and> m_datetime m = new_year_2023
               \<and> isoformat (m_datetime m) = ''2023-01-01T00:00:00''"
    by (simp add: isoformat_new_year_2023)
qed

theorem scenario_time_is_second_token_from_end_witness:
  "opened (example_file ''X_GEC_HH_20230101000000_Y.tif'' example_raster) = Inr example_raster
   \<and> crs example_raster = Some ''EPSG:4326''
   \<and> tag_datetime example_raster = Inr None
   \<and> filename (example_file ''X_GEC_HH_20230101000000_Y.tif'' example_raster)
       = ''X_GEC_HH_20230101000000_Y.tif''
   \<and> (\<exists>m. get_metadata_from_tif example_warp
              (example_file ''X_GEC_HH_20230101000000_Y.tif'' example_raster) = Some m
          \<and> product_name m = ''capella_gec_hh'' \<and> band_name m = ''hh''
          \<and> m_datetime m = new_year_2023
          \<and> isoformat (m_datetime m) = ''2023-01-01T00:00:00'')"
proof -
  let ?tif = "example_file ''X_GEC_HH_20230101000000_Y.tif'' example_raster"
  have o: "opened ?tif = Inr example_raster" and n: "filename ?tif = ''X_GEC_HH_20230101000000_Y.tif''"
    by (simp_all add: example_file_def)
  have t: "\<forall>d. tag_datetime example_raster \<noteq> Inr (Some d)"
    by (simp add: example_raster_facts)
  from scenario_time_is_second_token_from_end [OF o example_raster_facts(1) t, of example_warp] n
  have "\<exists>m. get_metadata_from_tif example_warp ?tif = Some m
          \<and> product_name m = ''capella_gec_hh'' \<and> band_name m = ''hh''
          \<and> m_datetime m = new_year_2023
          \<and> isoformat (m_datetime m) = ''2023-01-01T00:00:00''"
    by blast
  with o n example_raster_facts show ?thesis by blast
qed

text \<open>
  The claim as it was stated fails: a raster in the canonical reference, without
  tags, under the name \<^verbatim>\<open>X_GEC_HH_20230101000000.tif\<close> gives no metadata, because the
  time is read from the token \<^verbatim>\<open>HH\<close>.
\<close>

theorem scenario_file_is_rejected:
  "crs example_raster = Some ''EPSG:4326''
   \<and> tag_datetime example_raster = Inr None
   \<and> index_from_end (str_split CHR ''_'' ''X_GEC_HH_20230101000000'') 2 = Inr ''HH''
   \<and> filename_datetime ''X_GEC_HH_20230101000000'' = Inl ValueError
   \<and> get_metadata_from_tif example_warp
        (example_file ''X_GEC_HH_20230101000000.tif'' example_raster) = None"
  by code_simp

section \<open>Preview files\<close>

lemma str_split_not_Nil: "str_split sep s \<noteq> []"
  by (induction s) (auto split: list.splits)

lemma str_split_no_sep: "sep \<notin> set s \<Longrightarrow> str_split sep s = [s]"
  by (induction s) auto

lemma str_split_append: "str_split sep (a @ sep # b) = str_split sep a @ str_split sep b"
proof (induction a)
  case Nil
  then show ?case by simp
next
  case (Cons x a)
  obtain p ps where "str_split sep a = p # ps"
    using str_split_not_Nil [of sep a] by (cases "str_split sep a") auto
  with Cons show ?case by simp
qed

lemma preview_stem_tokens:
  assumes "CHR ''_'' \<notin> set ts" and "CHR ''_'' \<notin> set mid"
  shows "str_split CHR ''_'' (p @ ''_'' @ ts @ ''_'' @ mid @ ''_preview'')
           = str_split CHR ''_'' p @ [ts, mid, ''preview'']"
proof -
  have "str_split CHR ''_'' ''preview'' = [''preview'']"
    by (rule str_split_no_sep) simp
  then have "str_split CHR ''_'' (mid @ ''_preview'') = [mid, ''preview'']"
    using str_split_append [of "CHR ''_''" mid "''preview''"] str_split_no_sep [OF assms(2)]
    by simp
  then have "str_split CHR ''_'' (ts @ ''_'' @ mid @ ''_preview'') = [ts, mid, ''preview'']"
    using str_split_append [of "CHR ''_''" ts "mid @ ''_preview''"] str_split_no_sep [OF assms(1)]
    by simp
  then show ?thesis
    using str_split_append [of "CHR ''_''" p "ts @ ''_'' @ mid @ ''_preview''"] by simp
qed

lemma preview_filename_datetime:
  assumes "CHR ''_'' \<notin> set ts" and "CHR ''_'' \<notin> set mid"
  shows "filename_datetime (p @ ''_'' @ ts @ ''_'' @ mid @ ''_preview'')
           = strptime ts filename_format"
  unfolding filename_datetime_def Let_def preview_stem_tokens [OF assms]
  by (simp add: index_from_end_def nth_append)

lemma x_preview_facts:
  "splitext ''X_preview.tif'' = (''X_preview'', ''.tif'')"
  "str_split CHR ''_'' ''X_preview'' = [''X'', ''preview'']"
  "filename_datetime ''X_preview'' = Inl IndexError"
  "asset_roles ''X_preview.tif'' = [''thumbnail'']"
  by code_simp+

lemma x_preview_item:
  assumes "filename tif = ''X_preview.tif''"
      and "fst (add_tif W abspath wall_clock (items, out) tif) = items @ [item]"
  shows "map (\<lambda>(k, a). (k, roles a)) (assets item) = [(''data'', [''thumbnail''])]
       \<and> (item_datetime item = wall_clock
          \<or> (\<exists>src. opened tif = Inr src \<and> tag_datetime src = Inr (Some (item_datetime item))))"
proof (cases "get_stac_info_from_tif W wall_clock tif")
  case (Pair said r)
  show ?thesis
  proof (cases r)
    case (Inl e)
    with Pair assms(2) show ?thesis by (simp add: add_tif_def)
  next
    case (Inr info)
    show ?thesis
    proof (cases info)
      case None
      with Pair Inr assms(2) show ?thesis by (simp add: add_tif_def)
    next
      case (Some quad)
      obtain iid dt bb geom where q: "quad = (iid, dt, bb, geom)" by (cases quad) auto
      from Pair Inr Some q assms(2)
      have it: "item = \<lparr>item_id = iid, geometry = geom, bbox = bb, item_datetime = dt,
                         assets = [(''data'',
                                    \<lparr>href = abspath (tif_path tif),
                                       media_type = ''image/tiff; application=geotiff'',
                                       title = iid @ '' (GeoTIFF)'',
                                       roles = asset_roles (filename tif)\<rparr>)]\<rparr>"
        by (simp add: add_tif_def)
      have "dt = wall_clock \<or> (\<exists>src. opened tif = Inr src \<and> tag_datetime src = Inr (Some dt))"
        using Pair Inr Some q assms(1)
        unfolding get_stac_info_from_tif_def Let_def
        by (auto simp: x_preview_facts split: sum.splits option.splits if_splits)
      with it assms(1) show ?thesis by (simp add: x_preview_facts)
    qed
  qed
qed

text \<open>
  Claim C7, as amended. For the file name \<^verbatim>\<open>X_preview.tif\<close> the asset of the item
  built has the one role \<^verbatim>\<open>thumbnail\<close>. When the last token of a stem is
  \<^verbatim>\<open>preview\<close>, the time is looked for in the third token from the end. The stem
  \<^verbatim>\<open>X_preview\<close> has two tokens only, so its name gives no time, and the time of the
  item is that of a valid embedded tag or else the clock. For a stem that ends in
  \<^verbatim>\<open>_T_M_preview\<close>, with \<open>T\<close> and \<open>M\<close> free of underscores, the name gives the time
  parsed from \<open>T\<close>, the third token from the end.
\<close>

theorem preview_role_and_third_token_from_end:
  fixes W :: "'c warp" and tif :: "'c tif_file"
  shows "(filename tif = ''X_preview.tif'' \<longrightarrow>
            asset_roles (filename tif) = [''thumbnail'']
          \<and> str_split CHR ''_'' (fst (splitext (filename tif))) = [''X'', ''preview'']
          \<and> filename_datetime (fst (splitext (filename tif))) = Inl IndexError
          \<and> (\<forall>item. fst (add_tif W abspath wall_clock (items, out) tif) = items @ [item] \<longrightarrow>
                map (\<lambda>(k, a). (k, roles a)) (assets item) = [(''data'', [''thumbnail''])]
              \<and> (item_datetime item = wall_clock
                 \<or> (\<exists>src. opened tif = Inr src
                       \<and> tag_datetime src = Inr (Some (item_datetime item))))))
       \<and> (CHR ''_'' \<notin> set ts \<and> CHR ''_'' \<notin> set mid \<longrightarrow>
            filename_datetime (p @ ''_'' @ ts @ ''_'' @ mid @ ''_preview'')
              = strptime ts filename_format)"
proof (intro conjI impI allI)
  assume n: "filename tif = ''X_preview.tif''"
  then show "asset_roles (filename tif) = [''thumbnail'']"
    and "str_split CHR ''_'' (fst (splitext (filename tif))) = [''X'', ''preview'']"
    and "filename_datetime (fst (splitext (filename tif))) = Inl IndexError"
    by (simp_all add: x_preview_facts)
  fix item
  assume a: "fst (add_tif W abspath wall_clock (items, out) tif) = items @ [item]"
  from x_preview_item [OF n a]
  show "map (\<lambda>(k, a). (k, roles a)) (assets item) = [(''data'', [''thumbnail''])]"
    and "item_datetime item = wall_clock
         \<or> (\<exists>src. opened tif = Inr src \<and> tag_datetime src = Inr (Some (item_datetime item)))"
    by simp_all
next
  assume "CHR ''_'' \<notin> set ts \<and> CHR ''_'' \<notin> set mid"
  then show "filename_datetime (p @ ''_'' @ ts @ ''_'' @ mid @ ''_preview'')
               = strptime ts filename_format"
    by (intro preview_filename_datetime) simp_all
qed

lemma x_preview_example_run:
  "create_stac example_warp id frozen_clock [example_file ''X_preview.tif'' example_raster]
     = Continues
         ([\<lparr>item_id = ''X_preview'',
             geometry = Polygon [[(1, 0), (1, 1), (0, 1), (0, 0), (1, 0)]],
             bbox = (0, 0, 1, 1), item_datetime = example_clock,
             assets = [(''data'',
                        \<lparr>href = ''cog_files/X_preview.tif'',
                           media_type = ''image/tiff; application=geotiff'',
                           title = ''X_preview (GeoTIFF)'', roles = [''thumbnail'']\<rparr>)]\<rparr>],
          [FoundFiles 1, Processing ''X_preview.tif'', WarnUsingNow ''X_preview.tif''])"
  by code_simp

theorem preview_role_and_third_token_from_end_witness:
  "filename (example_file ''X_preview.tif'' example_raster) = ''X_preview.tif''
   \<and> asset_roles ''X_preview.tif'' = [''thumbnail'']
   \<and> filename_datetime ''X_preview'' = Inl IndexError
   \<and> CHR ''_'' \<notin> set ''20230101000000'' \<and> CHR ''_'' \<notin> set ''20230101000010''
   \<and> filename_datetime (''X'' @ ''_'' @ ''20230101000000'' @ ''_'' @ ''20230101000010'' @ ''_preview'')
       = Inr new_year_2023"
proof -
  have n: "filename (example_file ''X_preview.tif'' example_raster) = ''X_preview.tif''"
    by (simp add: example_file_def)
  have u: "CHR ''_'' \<notin> set ''20230101000000''" "CHR ''_'' \<notin> set ''20230101000010''"
    by simp_all
  have s: "fst (splitext ''X_preview.tif'') = ''X_preview''"
    by (simp add: x_preview_facts)
  from preview_role_and_third_token_from_end
         [where tif = "example_file ''X_preview.tif'' example_raster" and W = example_warp
            and abspath = id and wall_clock = example_clock and items = "[]" and out = "[]"
            and ts = "''20230101000000''" and mid = "''20230101000010''" and p = "''X''"]
       n u scenario_tokens(3) s
  show ?thesis by simp
qed

text \<open>
  The claim as it was stated fails: the stem \<^verbatim>\<open>X_preview\<close> has no third token from
  the end, and the item of the file, on a raster without tags, gets the time of the
  clock.
\<close>

theorem x_preview_gets_the_clock:
  "str_split CHR ''_'' ''X_preview'' = [''X'', ''preview'']
   \<and> index_from_end [''X'', ''preview''] 3 = Inl IndexError
   \<and> filename_datetime ''X_preview'' = Inl IndexError
   \<and> tag_datetime example_raster = Inr None
   \<and> create_stac example_warp id frozen_clock [example_file ''X_preview.tif'' example_raster]
     = Continues
         ([\<lparr>item_id = ''X_preview'',
             geometry = Polygon [[(1, 0), (1, 1), (0, 1), (0, 0), (1, 0)]],
             bbox = (0, 0, 1, 1), item_datetime = example_clock,
             assets = [(''data'',
                        \<lparr>href = ''cog_files/X_preview.tif'',
                           media_type = ''image/tiff; application=geotiff'',
                           title = ''X_preview (GeoTIFF)'', roles = [''thumbnail'']\<rparr>)]\<rparr>],
          [FoundFiles 1, Processing ''X_preview.tif'', WarnUsingNow ''X_preview.tif''])"
proof -
  have "index_from_end [''X'', ''preview''] 3 = Inl IndexError"
    by code_simp
  then show ?thesis
    using x_preview_facts(2,3) example_raster_facts(2) x_preview_example_run by blast
qed

section \<open>Files without a resolvable time\<close>

lemma undated_metadata_None:
  assumes "\<forall>src d. opened tif = Inr src \<longrightarrow> tag_datetime src \<noteq> Inr (Some d)"
      and "filename_datetime (fst (splitext (filename tif))) = Inl e"
  shows "get_metadata_from_tif W tif = None"
proof (cases "opened tif")
  case (Inl x)
  then show ?thesis by (simp add: get_metadata_from_tif_def)
next
  case (Inr src)
  with assms(1) have "\<forall>d. tag_datetime src \<noteq> Inr (Some d)" by simp
  from untagged_falls_to_filename [OF this, of "fst (splitext (filename tif))"]
  have t: "(case tag_datetime src of Inr (Some d) \<Rightarrow> Inr d
            | _ \<Rightarrow> filename_datetime (fst (splitext (filename tif)))) = Inl e"
    using assms(2) by simp
  show ?thesis
  proof (cases "crs src")
    case None
    with Inr show ?thesis by (simp add: get_metadata_from_tif_def)
  next
    case (Some c)
    show ?thesis
    proof (cases "if c \<noteq> ''EPSG:4326''
                  then transform_geom W c ''EPSG:4326'' (mapping_box (bounds src))
                  else Inr (mapping_box (bounds src))")
      case (Inl x)
      with Inr Some show ?thesis by (simp add: get_metadata_from_tif_def)
    next
      case g: (Inr geom)
      from Inr Some g t show ?thesis
        unfolding get_metadata_from_tif_def Let_def by simp
    qed
  qed
qed

lemma undated_stac_info:
  assumes "opened tif = Inr src" and "crs src = Some c"
      and "\<forall>d. tag_datetime src \<noteq> Inr (Some d)"
      and "filename_datetime (fst (splitext (filename tif))) = Inl e"
      and "if c \<noteq> ''EPSG:4326''
           then transform_bounds W c ''EPSG:4326'' (bounds src) = Inr bb
                \<and> transform_geom W c ''EPSG:4326'' (mapping_box (bounds src)) = Inr geom
           else bb = bounds src \<and> geom = mapping_box (bounds src)"
  shows "\<exists>warned. get_stac_info_from_tif W wall_clock tif
           = (warned @ [WarnUsingNow (filename tif)],
              Inr (Some (fst (splitext (filename tif)), wall_clock, bb, geom)))"
proof -
  have fp: "(if c \<noteq> ''EPSG:4326''
             then (case transform_bounds W c ''EPSG:4326'' (bounds src) of
                     Inl e \<Rightarrow> Inl e
                   | Inr b \<Rightarrow>
                       (case transform_geom W c ''EPSG:4326'' (mapping_box (bounds src)) of
                          Inl e \<Rightarrow> Inl e
                        | Inr g \<Rightarrow> Inr (b, g)))
             else Inr (bounds src, mapping_box (bounds src))) = Inr (bb, geom)"
    using assms(5) by (cases "c = ''EPSG:4326''") auto
  show ?thesis
  proof (cases "tag_datetime src")
    case (Inl x)
    then have "get_stac_info_from_tif W wall_clock tif
           = ([WarnTagFailed (filename tif)] @ [WarnUsingNow (filename tif)],
              Inr (Some (fst (splitext (filename tif)), wall_clock, bb, geom)))"
      using assms(1,2,4) fp unfolding get_stac_info_from_tif_def Let_def by simp
    then show ?thesis by blast
  next
    case (Inr r)
    with assms(3) have "r = None" by (cases r) auto
    with Inr have "get_stac_info_from_tif W wall_clock tif
           = ([] @ [WarnUsingNow (filename tif)],
              Inr (Some (fst (splitext (filename tif)), wall_clock, bb, geom)))"
      using assms(1,2,4) fp unfolding get_stac_info_from_tif_def Let_def by simp
    then show ?thesis by blast
  qed
qed

text \<open>
  Claim C2, as amended. Take a raster file with neither a valid embedded date-time
  tag nor a time in its name that parses. In indexing mode the extraction returns
  nothing, and the loop leaves the index, the counter and the written documents as
  they were: the file is never registered, under no time. In browsing mode, when the
  file opens, has a spatial reference and its footprint reprojects, the file is
  included with the clock read at that moment as its time, and the last line
  printed for it reports the fall-back to the current time. The item itself has no
  field for where its time came from.
\<close>

theorem undated_file_fails_indexing_and_gets_clock_browsing:
  fixes W :: "'c warp" and E :: "('c, 'ix, 'ds) env" and tif :: "'c tif_file"
  assumes "\<forall>src d. opened tif = Inr src \<longrightarrow> tag_datetime src \<noteq> Inr (Some d)"
      and "filename_datetime (fst (splitext (filename tif))) = Inl e"
  shows "get_metadata_from_tif W tif = None
       \<and> process_tif E st tif = Inr st
       \<and> (\<forall>src c bb geom.
            opened tif = Inr src \<and> crs src = Some c
            \<and> (if c \<noteq> ''EPSG:4326''
               then transform_bounds W c ''EPSG:4326'' (bounds src) = Inr bb
                    \<and> transform_geom W c ''EPSG:4326'' (mapping_box (bounds src)) = Inr geom
               else bb = bounds src \<and> geom = mapping_box (bounds src)) \<longrightarrow>
            (\<exists>warned item.
               get_stac_info_from_tif W wall_clock tif
                 = (warned @ [WarnUsingNow (filename tif)],
                    Inr (Some (fst (splitext (filename tif)), wall_clock, bb, geom)))
               \<and> add_tif W abspath wall_clock (items, out) tif
                 = (items @ [item],
                    out @ [Processing (filename tif)] @ warned @ [WarnUsingNow (filename tif)])
               \<and> item_id item = fst (splitext (filename tif))
               \<and> item_datetime item = wall_clock \<and> bbox item = bb \<and> geometry item = geom))"
proof (intro conjI allI impI)
  show "get_metadata_from_tif W tif = None"
    by (rule undated_metadata_None [OF assms])
  have "get_metadata_from_tif (warp E) tif = None"
    by (rule undated_metadata_None [OF assms])
  then show "process_tif E st tif = Inr st"
    by (simp add: process_tif_def)
next
  fix src c bb geom
  assume a: "opened tif = Inr src \<and> crs src = Some c
            \<and> (if c \<noteq> ''EPSG:4326''
               then transform_bounds W c ''EPSG:4326'' (bounds src) = Inr bb
                    \<and> transform_geom W c ''EPSG:4326'' (mapping_box (bounds src)) = Inr geom
               else bb = bounds src \<and> geom = mapping_box (bounds src))"
  with assms(1) have nt: "\<forall>d. tag_datetime src \<noteq> Inr (Some d)" by simp
  from a have o: "opened tif = Inr src" and c: "crs src = Some c" by simp_all
  from a have fp: "if c \<noteq> ''EPSG:4326''
               then transform_bounds W c ''EPSG:4326'' (bounds src) = Inr bb
                    \<and> transform_geom W c ''EPSG:4326'' (mapping_box (bounds src)) = Inr geom
               else bb = bounds src \<and> geom = mapping_box (bounds src)" by simp
  from undated_stac_info [OF o c nt assms(2) fp, of wall_clock]
  obtain warned where w: "get_stac_info_from_tif W wall_clock tif
           = (warned @ [WarnUsingNow (filename tif)],
              Inr (Some (fst (splitext (filename tif)), wall_clock, bb, geom)))"
    by blast
  then show "\<exists>warned item.
               get_stac_info_from_tif W wall_clock tif
                 = (warned @ [WarnUsingNow (filename tif)],
                    Inr (Some (fst (splitext (filename tif)), wall_clock, bb, geom)))
               \<and> add_tif W abspath wall_clock (items, out) tif
                 = (items @ [item],
                    out @ [Processing (filename tif)] @ warned @ [WarnUsingNow (filename tif)])
               \<and> item_id item = fst (splitext (filename tif))
               \<and> item_datetime item = wall_clock \<and> bbox item = bb \<and> geometry item = geom"
    by (simp add: add_tif_def)
qed

lemma undated_example_facts:
  "filename_datetime (fst (splitext (filename (example_file ''scene.tif'' example_raster))))
     = Inl IndexError"
  "opened (example_file ''scene.tif'' example_raster) = Inr example_raster"
  by (code_simp, simp add: example_file_def)

theorem undated_file_fails_indexing_and_gets_clock_browsing_witness:
  "tag_datetime example_raster = Inr None
   \<and> filename_datetime (fst (splitext (filename (example_file ''scene.tif'' example_raster))))
       = Inl IndexError
   \<and> get_metadata_from_tif example_warp (example_file ''scene.tif'' example_raster) = None
   \<and> (\<exists>warned item.
         get_stac_info_from_tif example_warp example_clock (example_file ''scene.tif'' example_raster)
           = (warned @ [WarnUsingNow ''scene.tif''],
              Inr (Some (''scene'', example_clock, (0, 0, 1, 1),
                         Polygon [[(1, 0), (1, 1), (0, 1), (0, 0), (1, 0)]])))
         \<and> fst (add_tif example_warp id example_clock ([], []) (example_file ''scene.tif'' example_raster))
             = [item]
         \<and> item_datetime item = example_clock)"
proof -
  let ?tif = "example_file ''scene.tif'' example_raster"
  have h1: "\<forall>src d. opened ?tif = Inr src \<longrightarrow> tag_datetime src \<noteq> Inr (Some d)"
    by (simp add: undated_example_facts(2) example_raster_facts)
  have b: "bounds example_raster = (0, 0, 1, 1)"
          "mapping_box (bounds example_raster) = Polygon [[(1, 0), (1, 1), (0, 1), (0, 0), (1, 0)]]"
          "filename ?tif = ''scene.tif''" "fst (splitext ''scene.tif'') = ''scene''"
          "mapping_box (0, 0, 1, 1 :: int) = Polygon [[(1, 0), (1, 1), (0, 1), (0, 0), (1, 0)]]"
    by code_simp+
  have fp: "opened ?tif = Inr example_raster \<and> crs example_raster = Some ''EPSG:4326''
            \<and> (if ''EPSG:4326'' \<noteq> ''EPSG:4326''
               then transform_bounds example_warp ''EPSG:4326'' ''EPSG:4326'' (bounds example_raster)
                      = Inr (bounds example_raster)
                    \<and> transform_geom example_warp ''EPSG:4326'' ''EPSG:4326''
                        (mapping_box (bounds example_raster)) = Inr (mapping_box (bounds example_raster))
               else bounds example_raster = bounds example_raster
                    \<and> mapping_box (bounds example_raster) = mapping_box (bounds example_raster))"
    by (simp add: undated_example_facts(2) example_raster_facts)
  from undated_file_fails_indexing_and_gets_clock_browsing
         [OF h1 undated_example_facts(1), of example_warp _ _ example_clock id "[]" "[]"] fp
  have "get_metadata_from_tif example_warp ?tif = None
        \<and> (\<exists>warned item.
               get_stac_info_from_tif example_warp example_clock ?tif
                 = (warned @ [WarnUsingNow (filename ?tif)],
                    Inr (Some (fst (splitext (filename ?tif)), example_clock,
                               bounds example_raster, mapping_box (bounds example_raster))))
               \<and> add_tif example_warp id example_clock ([], []) ?tif
                 = ([] @ [item],
                    [] @ [Processing (filename ?tif)] @ warned @ [WarnUsingNow (filename ?tif)])
               \<and> item_id item = fst (splitext (filename ?tif))
               \<and> item_datetime item = example_clock \<and> bbox item = bounds example_raster
               \<and> geometry item = mapping_box (bounds example_raster))"
    by blast
  then show ?thesis
    using example_raster_facts(2) undated_example_facts(1) by (auto simp: b)
qed

text \<open>
  The claim as it was stated fails in browsing mode: a file with no time in its tags
  or its name and without a spatial reference is left out of the catalog.
\<close>

theorem undated_unreferenced_file_is_left_out:
  "tag_datetime unreferenced_raster = Inr None
   \<and> filename_datetime (fst (splitext ''scene.tif'')) = Inl IndexError
   \<and> get_stac_info_from_tif example_warp example_clock (example_file ''scene.tif'' unreferenced_raster)
       = ([SkipNoCRS ''scene.tif''], Inr None)
   \<and> create_stac example_warp id frozen_clock [example_file ''scene.tif'' unreferenced_raster]
       = Continues ([], [FoundFiles 1, Processing ''scene.tif'', SkipNoCRS ''scene.tif''])"
  by code_simp

section \<open>Files with an embedded time\<close>











section \<open>Product classification\<close>

lemma metadata_Some_marker:
  assumes "get_metadata_from_tif W tif = Some m"
  shows "str_contains ''_GEC_HH_'' (fst (splitext (filename tif)))
       \<or> str_contains ''_GEC_VV_'' (fst (splitext (filename tif)))"
  using assms unfolding get_metadata_from_tif_def Let_def
  by (auto split: sum.splits option.splits if_splits)

lemma metadata_None_unmarked:
  assumes "\<not> str_contains ''_GEC_HH_'' (fst (splitext (filename tif)))"
      and "\<not> str_contains ''_GEC_VV_'' (fst (splitext (filename tif)))"
  shows "get_metadata_from_tif W tif = None"
  using assms metadata_Some_marker [of W tif] by (cases "get_metadata_from_tif W tif") auto

lemma stem_start_marker_facts:
  "starts_with ''GEC_HH_'' ''GEC_HH_20230101000000_Y''"
  "str_contains ''GEC_HH'' ''GEC_HH_20230101000000_Y''"
  "\<not> str_contains ''_GEC_HH_'' ''GEC_HH_20230101000000_Y''"
  "\<not> str_contains ''_GEC_VV_'' ''GEC_HH_20230101000000_Y''"
  "filename_datetime ''GEC_HH_20230101000000_Y'' = Inr new_year_2023"
  by code_simp+

text \<open>
  Claim C10. In indexing mode a file is classified only when the stem of its name holds
  \<^verbatim>\<open>_GEC_HH_\<close> or \<^verbatim>\<open>_GEC_VV_\<close> as a substring, both underscores included. There is
  a stem that starts with \<^verbatim>\<open>GEC_HH_\<close>, so holds the marker text \<^verbatim>\<open>GEC_HH\<close>, and names
  a time in its second token from the end, and still every file of that stem is
  rejected.
\<close>

theorem product_marker_needs_both_underscores:
  "(\<forall>(W :: 'c warp) tif m. get_metadata_from_tif W tif = Some m \<longrightarrow>
       (\<exists>a b. fst (splitext (filename tif)) = a @ ''_GEC_HH_'' @ b)
     \<or> (\<exists>a b. fst (splitext (filename tif)) = a @ ''_GEC_VV_'' @ b))
   \<and> (\<exists>stem. (\<exists>b. stem = ''GEC_HH_'' @ b) \<and> (\<exists>a b. stem = a @ ''GEC_HH'' @ b)
         \<and> filename_datetime stem = Inr new_year_2023
         \<and> (\<forall>(W :: 'c warp) tif. fst (splitext (filename tif)) = stem \<longrightarrow>
               get_metadata_from_tif W tif = None))"
proof (intro conjI allI impI)
  fix W :: "'c warp" and tif m
  assume "get_metadata_from_tif W tif = Some m"
  from metadata_Some_marker [OF this]
  show "(\<exists>a b. fst (splitext (filename tif)) = a @ ''_GEC_HH_'' @ b)
      \<or> (\<exists>a b. fst (splitext (filename tif)) = a @ ''_GEC_VV_'' @ b)"
    by (simp only: str_contains_iff)
next
  let ?stem = "''GEC_HH_20230101000000_Y''"
  have "\<exists>b. ?stem = ''GEC_HH_'' @ b"
    using stem_start_marker_facts(1) by (simp only: starts_with_iff)
  moreover have "\<exists>a b. ?stem = a @ ''GEC_HH'' @ b"
    using stem_start_marker_facts(2) by (simp only: str_contains_iff)
  moreover have "\<forall>(W :: 'c warp) tif. fst (splitext (filename tif)) = ?stem \<longrightarrow>
                   get_metadata_from_tif W tif = None"
    using stem_start_marker_facts(3,4) by (auto intro: metadata_None_unmarked)
  ultimately show "\<exists>stem. (\<exists>b. stem = ''GEC_HH_'' @ b) \<and> (\<exists>a b. stem = a @ ''GEC_HH'' @ b)
         \<and> filename_datetime stem = Inr new_year_2023
         \<and> (\<forall>(W :: 'c warp) tif. fst (splitext (filename tif)) = stem \<longrightarrow>
               get_metadata_from_tif W tif = None)"
    using stem_start_marker_facts(5) by blast
qed

theorem product_marker_needs_both_underscores_witness:
  "get_metadata_from_tif example_warp (example_file ''X_GEC_HH_20230101000000_Y.tif'' example_raster)
     = Some \<lparr>m_id = ''X_GEC_HH_20230101000000_Y'', m_datetime = new_year_2023,
              m_geometry = Polygon [[(1, 0), (1, 1), (0, 1), (0, 0), (1, 0)]],
              product_name = ''capella_gec_hh'', band_name = ''hh'',
              m_shape = (2, 2), m_transform = (1, 0, 0, 0, 1, 0)\<rparr>
   \<and> ((\<exists>a b. fst (splitext (filename (example_file ''X_GEC_HH_20230101000000_Y.tif'' example_raster)))
               = a @ ''_GEC_HH_'' @ b)
      \<or> (\<exists>a b. fst (splitext (filename (example_file ''X_GEC_HH_20230101000000_Y.tif'' example_raster)))
               = a @ ''_GEC_VV_'' @ b))
   \<and> fst (splitext (filename (example_file ''GEC_HH_20230101000000_Y.tif'' example_raster)))
       = ''GEC_HH_20230101000000_Y''
   \<and> get_metadata_from_tif example_warp (example_file ''GEC_HH_20230101000000_Y.tif'' example_raster)
       = None"
proof -
  have stem: "fst (splitext (filename (example_file ''GEC_HH_20230101000000_Y.tif'' example_raster)))
       = ''GEC_HH_20230101000000_Y''"
    by code_simp
  have none: "get_metadata_from_tif example_warp (example_file ''GEC_HH_20230101000000_Y.tif'' example_raster)
       = None"
    by code_simp
  from product_marker_needs_both_underscores [where 'c = int] example_marked_metadata stem none
  show ?thesis by blast
qed

section \<open>Footprints\<close>

text \<open>
  Claim C6. A raster without a spatial reference is rejected by both modes and leaves
  no trace in their output: in browsing mode the extraction prints that the file is
  skipped for its missing reference and returns its four \<^verbatim>\<open>None\<close>s, and the loop adds
  no item; in indexing mode the extraction returns nothing, and the loop builds no
  document, writes no file and leaves the index and the counter as they were. No item
  or document with any geometry is made for the file.
\<close>

theorem no_spatial_reference_is_excluded:
  fixes W :: "'c warp" and E :: "('c, 'ix, 'ds) env" and tif :: "'c tif_file"
  assumes "opened tif = Inr src" and "crs src = None"
  shows "get_stac_info_from_tif W wall_clock tif = ([SkipNoCRS (filename tif)], Inr None)
       \<and> add_tif W abspath wall_clock (items, out) tif
           = (items, out @ [Processing (filename tif), SkipNoCRS (filename tif)])
       \<and> get_metadata_from_tif W tif = None
       \<and> process_tif E st tif = Inr st"
proof -
  have b: "get_stac_info_from_tif W wall_clock tif = ([SkipNoCRS (filename tif)], Inr None)"
    using assms by (simp add: get_stac_info_from_tif_def)
  have i: "get_metadata_from_tif W' tif = None" for W' :: "'c warp"
    using assms by (simp add: get_metadata_from_tif_def)
  show ?thesis
    by (simp add: b i add_tif_def process_tif_def)
qed

theorem no_spatial_reference_is_excluded_witness:
  "opened (example_file ''scene.tif'' unreferenced_raster) = Inr unreferenced_raster
   \<and> crs unreferenced_raster = None
   \<and> get_stac_info_from_tif example_warp example_clock (example_file ''scene.tif'' unreferenced_raster)
       = ([SkipNoCRS (filename (example_file ''scene.tif'' unreferenced_raster))], Inr None)
   \<and> add_tif example_warp id example_clock ([], []) (example_file ''scene.tif'' unreferenced_raster)
       = ([], [] @ [Processing (filename (example_file ''scene.tif'' unreferenced_raster)),
                    SkipNoCRS (filename (example_file ''scene.tif'' unreferenced_raster))])
   \<and> get_metadata_from_tif example_warp (example_file ''scene.tif'' unreferenced_raster) = None
   \<and> process_tif example_env
        \<lparr>index = [], success_count = 0, written = [], built = 0, printed = []\<rparr>
        (example_file ''scene.tif'' unreferenced_raster)
       = Inr \<lparr>index = [], success_count = 0, written = [], built = 0, printed = []\<rparr>"
proof -
  have o: "opened (example_file ''scene.tif'' unreferenced_raster) = Inr unreferenced_raster"
    by (simp add: example_file_def)
  have c: "crs unreferenced_raster = None"
    by (simp add: unreferenced_raster_def)
  from no_spatial_reference_is_excluded
         [OF o c, of example_warp example_clock id "[]" "[]" example_env
            "\<lparr>index = [], success_count = 0, written = [], built = 0, printed = []\<rparr>"] o c
  show ?thesis by simp
qed

text \<open>
  Claim C8. A raster whose spatial reference is the canonical \<^verbatim>\<open>EPSG:4326\<close> keeps its
  raw footprint: browsing mode always makes the item, with the bounds of the source as
  its bounding box and the polygon of those bounds as its geometry; every record of
  indexing mode, and the document built from it, has the polygon of those bounds as
  its geometry. Neither result depends on the reprojection functions: they are not
  called.
\<close>

theorem canonical_reference_passes_through:
  fixes W W' :: "'c warp" and tif :: "'c tif_file"
  assumes "opened tif = Inr src" and "crs src = Some ''EPSG:4326''"
  shows "(\<exists>said iid dt. get_stac_info_from_tif W wall_clock tif
            = (said, Inr (Some (iid, dt, bounds src, mapping_box (bounds src)))))
       \<and> (\<exists>item. fst (add_tif W abspath wall_clock (items, out) tif) = items @ [item]
            \<and> bbox item = bounds src \<and> geometry item = mapping_box (bounds src))
       \<and> (\<forall>m. get_metadata_from_tif W tif = Some m \<longrightarrow>
            m_geometry m = mapping_box (bounds src)
            \<and> doc_geometry (build_eo3_dict to_uri u wall_clock m tif) = mapping_box (bounds src))
       \<and> get_stac_info_from_tif W wall_clock tif = get_stac_info_from_tif W' wall_clock tif
       \<and> get_metadata_from_tif W tif = get_metadata_from_tif W' tif"
proof -
  have s: "\<exists>said iid dt. get_stac_info_from_tif W wall_clock tif
            = (said, Inr (Some (iid, dt, bounds src, mapping_box (bounds src))))"
    using assms unfolding get_stac_info_from_tif_def Let_def
    by (simp split: sum.splits option.splits)
  then obtain said iid dt where g: "get_stac_info_from_tif W wall_clock tif
            = (said, Inr (Some (iid, dt, bounds src, mapping_box (bounds src))))"
    by blast
  have a: "\<exists>item. fst (add_tif W abspath wall_clock (items, out) tif) = items @ [item]
            \<and> bbox item = bounds src \<and> geometry item = mapping_box (bounds src)"
    by (simp add: add_tif_def g)
  have m: "\<forall>m. get_metadata_from_tif W tif = Some m \<longrightarrow>
            m_geometry m = mapping_box (bounds src)
            \<and> doc_geometry (build_eo3_dict to_uri u wall_clock m tif) = mapping_box (bounds src)"
    using assms unfolding get_metadata_from_tif_def build_eo3_dict_def Let_def
    by (auto split: sum.splits option.splits if_splits)
  have e1: "get_stac_info_from_tif W wall_clock tif = get_stac_info_from_tif W' wall_clock tif"
    using assms unfolding get_stac_info_from_tif_def Let_def by simp
  have e2: "get_metadata_from_tif W tif = get_metadata_from_tif W' tif"
    using assms unfolding get_metadata_from_tif_def Let_def by simp
  from s a m e1 e2 show ?thesis by blast
qed

theorem canonical_reference_passes_through_witness:
  "opened (example_file ''X_GEC_HH_20230101000000_Y.tif'' example_raster) = Inr example_raster
   \<and> crs example_raster = Some ''EPSG:4326''
   \<and> bounds example_raster = (0, 0, 1, 1)
   \<and> (\<exists>said iid dt.
         get_stac_info_from_tif example_warp example_clock
           (example_file ''X_GEC_HH_20230101000000_Y.tif'' example_raster)
           = (said, Inr (Some (iid, dt, bounds example_raster, mapping_box (bounds example_raster)))))
   \<and> (\<exists>m. get_metadata_from_tif example_warp
              (example_file ''X_GEC_HH_20230101000000_Y.tif'' example_raster) = Some m
          \<and> m_geometry m = mapping_box (bounds example_raster)
          \<and> doc_geometry (build_eo3_dict id 1 example_clock m
                             (example_file ''X_GEC_HH_20230101000000_Y.tif'' example_raster))
              = mapping_box (bounds example_raster))"
proof -
  let ?tif = "example_file ''X_GEC_HH_20230101000000_Y.tif'' example_raster"
  have o: "opened ?tif = Inr example_raster"
    by (simp add: example_file_def)
  have b: "bounds example_raster = (0, 0, 1, 1)"
    by (simp add: example_raster_def)
  note inst = canonical_reference_passes_through
                [OF o example_raster_facts(1), of example_warp example_clock id "[]" "[]" id 1
                    example_warp]
  from inst have "\<exists>said iid dt.
         get_stac_info_from_tif example_warp example_clock ?tif
           = (said, Inr (Some (iid, dt, bounds example_raster, mapping_box (bounds example_raster))))"
    by blast
  moreover from inst example_marked_metadata
  have "\<exists>m. get_metadata_from_tif example_warp ?tif = Some m
          \<and> m_geometry m = mapping_box (bounds example_raster)
          \<and> doc_geometry (build_eo3_dict id 1 example_clock m ?tif)
              = mapping_box (bounds example_raster)"
    by blast
  ultimately show ?thesis
    using o b example_raster_facts(1) by blast
qed

section \<open>Document identifiers\<close>

lemma nibble_less: "nibble u i < 16"
proof -
  have "take_bit 4 (unat (drop_bit (4 * i) u)) < 2 ^ 4"
    by (rule take_bit_nat_less_exp)
  then show ?thesis by (simp add: nibble_def unsigned_take_bit_eq)
qed

lemma hexdigits_inj:
  assumes "a < 16" and "b < 16" and "hexdigits ! a = hexdigits ! b"
  shows "a = b"
proof -
  have "distinct hexdigits" by (simp add: hexdigits_def)
  moreover have "length hexdigits = 16" by (simp add: hexdigits_def)
  ultimately show ?thesis using assms by (simp add: nth_eq_iff_index_eq)
qed

lemma hex32_inj_nibbles:
  assumes "hex32 u = hex32 v" and "i < 32"
  shows "nibble u i = nibble v i"
proof -
  from assms(2) have "31 - i \<in> set [0 ..< 32]" by simp
  with assms(1) have "hexdigits ! nibble u (31 - (31 - i)) = hexdigits ! nibble v (31 - (31 - i))"
    unfolding hex32_def map_eq_conv by blast
  with assms(2) have "hexdigits ! nibble u i = hexdigits ! nibble v i" by simp
  then show ?thesis by (rule hexdigits_inj [OF nibble_less nibble_less])
qed

lemma nibbles_determine:
  assumes "\<And>i. i < 32 \<Longrightarrow> nibble u i = nibble v i"
  shows "u = v"
proof (rule bit_word_eqI)
  fix n
  assume "n < LENGTH(128)"
  then have q: "n div 4 < 32" by simp
  have r: "n mod 4 < 4" by simp
  have n: "4 * (n div 4) + n mod 4 = n" by simp
  from assms [OF q] have "take_bit 4 (drop_bit (4 * (n div 4)) u) = take_bit 4 (drop_bit (4 * (n div 4)) v)"
    unfolding nibble_def by (rule unsigned_word_eqI)
  then have "bit (take_bit 4 (drop_bit (4 * (n div 4)) u)) (n mod 4)
             \<longleftrightarrow> bit (take_bit 4 (drop_bit (4 * (n div 4)) v)) (n mod 4)"
    by simp
  then show "bit u n \<longleftrightarrow> bit v n"
    using r n by (simp add: bit_take_bit_iff bit_drop_bit_eq)
qed

lemma length_hex32: "length (hex32 u) = 32"
  by (simp add: hex32_def)

lemma str_uuid_inj:
  assumes "str_uuid u = str_uuid v"
  shows "u = v"
proof -
  let ?g = "\<lambda>h :: string. take 8 h @ ''-'' @ take 4 (drop 8 h) @ ''-'' @ take 4 (drop 12 h) @ ''-''
         @ take 4 (drop 16 h) @ ''-'' @ drop 20 h"
  have split: "h = take 8 h @ take 4 (drop 8 h) @ take 4 (drop 12 h) @ take 4 (drop 16 h) @ drop 20 h"
    for h :: string
  proof -
    have a: "take 4 (drop 16 h) @ drop 20 h = drop 16 h"
      using append_take_drop_id [of 4 "drop 16 h"] by simp
    have b: "take 4 (drop 12 h) @ drop 16 h = drop 12 h"
      using append_take_drop_id [of 4 "drop 12 h"] by simp
    have c: "take 4 (drop 8 h) @ drop 12 h = drop 8 h"
      using append_take_drop_id [of 4 "drop 8 h"] by simp
    show ?thesis by (simp only: a b c append_take_drop_id)
  qed
  from assms have e: "?g (hex32 u) = ?g (hex32 v)"
    by (simp add: str_uuid_def Let_def)
  have "take 8 (hex32 u) = take 8 (hex32 v) \<and> take 4 (drop 8 (hex32 u)) = take 4 (drop 8 (hex32 v))
        \<and> take 4 (drop 12 (hex32 u)) = take 4 (drop 12 (hex32 v))
        \<and> take 4 (drop 16 (hex32 u)) = take 4 (drop 16 (hex32 v))
        \<and> drop 20 (hex32 u) = drop 20 (hex32 v)"
  proof -
    have l: "length (take 8 (hex32 u)) = length (take 8 (hex32 v))"
            "length (take 4 (drop 8 (hex32 u))) = length (take 4 (drop 8 (hex32 v)))"
            "length (take 4 (drop 12 (hex32 u))) = length (take 4 (drop 12 (hex32 v)))"
            "length (take 4 (drop 16 (hex32 u))) = length (take 4 (drop 16 (hex32 v)))"
      by (simp_all add: length_hex32)
    from e l(1) have e1: "take 8 (hex32 u) = take 8 (hex32 v)"
      and r1: "take 4 (drop 8 (hex32 u)) @ ''-'' @ take 4 (drop 12 (hex32 u)) @ ''-''
                 @ take 4 (drop 16 (hex32 u)) @ ''-'' @ drop 20 (hex32 u)
             = take 4 (drop 8 (hex32 v)) @ ''-'' @ take 4 (drop 12 (hex32 v)) @ ''-''
                 @ take 4 (drop 16 (hex32 v)) @ ''-'' @ drop 20 (hex32 v)"
      by simp_all
    from r1 l(2) have e2: "take 4 (drop 8 (hex32 u)) = take 4 (drop 8 (hex32 v))"
      and r2: "take 4 (drop 12 (hex32 u)) @ ''-'' @ take 4 (drop 16 (hex32 u)) @ ''-''
                 @ drop 20 (hex32 u)
             = take 4 (drop 12 (hex32 v)) @ ''-'' @ take 4 (drop 16 (hex32 v)) @ ''-''
                 @ drop 20 (hex32 v)"
      by simp_all
    from r2 l(3) have e3: "take 4 (drop 12 (hex32 u)) = take 4 (drop 12 (hex32 v))"
      and r3: "take 4 (drop 16 (hex32 u)) @ ''-'' @ drop 20 (hex32 u)
             = take 4 (drop 16 (hex32 v)) @ ''-'' @ drop 20 (hex32 v)"
      by simp_all
    from r3 l(4) have e4: "take 4 (drop 16 (hex32 u)) = take 4 (drop 16 (hex32 v))"
      and e5: "drop 20 (hex32 u) = drop 20 (hex32 v)"
      by simp_all
    from e1 e2 e3 e4 e5 show ?thesis by simp
  qed
  then have "hex32 u = hex32 v"
    using split [of "hex32 u"] split [of "hex32 v"] by simp
  then show ?thesis
    by (intro nibbles_determine hex32_inj_nibbles)
qed

text \<open>
  Claim C9. The identifier of the document is the identifier drawn in this call,
  printed: it is the same whatever the file, its name, its path, the metadata taken from
  it and the clock are, and two builds of the same file on two different draws give
  documents with different identifiers.
\<close>

theorem document_id_is_the_fresh_draw:
  "doc_id (build_eo3_dict to_uri u wall_clock metadata tif)
     = doc_id (build_eo3_dict to_uri' u wall_clock' metadata' tif')
   \<and> doc_id (build_eo3_dict to_uri u wall_clock metadata tif) = str_uuid u
   \<and> (u \<noteq> v \<longrightarrow>
        doc_id (build_eo3_dict to_uri u wall_clock metadata tif)
          \<noteq> doc_id (build_eo3_dict to_uri v wall_clock' metadata tif))"
  using str_uuid_inj [of u v] by (auto simp: build_eo3_dict_def Let_def)

theorem document_id_is_the_fresh_draw_witness:
  "(1 :: uuid) \<noteq> 2
   \<and> doc_id (build_eo3_dict id 1 example_clock example_metadata
               (example_file ''X_GEC_HH_20230101000000_Y.tif'' example_raster))
       = ''00000000-0000-0000-0000-000000000001''
   \<and> doc_id (build_eo3_dict id 1 example_clock example_metadata
               (example_file ''X_GEC_HH_20230101000000_Y.tif'' example_raster))
       \<noteq> doc_id (build_eo3_dict id 2 new_year_2023 example_metadata
                   (example_file ''X_GEC_HH_20230101000000_Y.tif'' example_raster))"
proof -
  have d: "(1 :: uuid) \<noteq> 2" by simp
  have s: "str_uuid 1 = ''00000000-0000-0000-0000-000000000001''" by code_simp
  from document_id_is_the_fresh_draw
         [where u = 1 and v = 2 and to_uri = id and wall_clock = example_clock
            and wall_clock' = new_year_2023 and metadata = example_metadata
            and tif = "example_file ''X_GEC_HH_20230101000000_Y.tif'' example_raster"
            and to_uri' = id and metadata' = example_metadata
            and tif' = "example_file ''X_GEC_HH_20230101000000_Y.tif'' example_raster"] d s
  show ?thesis by metis
qed

section \<open>Registration in the index\<close>

lemma built_index_dataset: "built (index_dataset E st meta doc_dict yaml_path) = built st"
  unfolding index_dataset_def say_def
  by (auto split: sum.splits option.splits list.splits prod.splits)

lemma process_tif_when_dump_succeeds:
  assumes "\<forall>p. dump E p = None"
  shows "\<exists>st'. process_tif E st tif = Inr st'
           \<and> built st' = built st + (if get_metadata_from_tif (warp E) tif = None then 0 else 1)"
  using assms unfolding process_tif_def Let_def
  by (auto simp: built_index_dataset split: option.splits)

lemma index_loop_when_dump_succeeds:
  assumes "\<forall>p. dump E p = None"
  shows "\<exists>st'. index_loop E st batch = Inr st'
           \<and> built st' = built st
                + length (filter (\<lambda>t. get_metadata_from_tif (warp E) t \<noteq> None) batch)"
proof (induction batch arbitrary: st)
  case Nil
  then show ?case by simp
next
  case (Cons tif batch)
  from process_tif_when_dump_succeeds [OF assms, of st tif]
  obtain st1 where s1: "process_tif E st tif = Inr st1"
    and b1: "built st1 = built st + (if get_metadata_from_tif (warp E) tif = None then 0 else 1)"
    by blast
  from Cons.IH [of st1] obtain st' where s2: "index_loop E st1 batch = Inr st'"
    and b2: "built st' = built st1
               + length (filter (\<lambda>t. get_metadata_from_tif (warp E) t \<noteq> None) batch)"
    by blast
  from s1 s2 b1 b2 show ?case by simp
qed

text \<open>
  What the loop does with a file whose document is built, written and submitted to the
  index. Whatever the index answers, the body of the loop ends normally and the loop
  goes on with the remaining files, from the state that the submission left. An
  update of the resolved dataset is tried first, and when it succeeds the insertion
  is not looked at. When the update raises ValueError (the index has no record to
  update), the dataset is inserted and counted; when the insertion fails too, the
  failure is printed and the file is skipped, the index and the counter staying as
  they were. A document that does not resolve, and any other exception, is printed
  and skipped in the same way. In a batch where every document can be written, the
  loop reaches its end and has built and submitted one document for each file that
  gave metadata.
\<close>

lemma submitted_document_is_indexed_and_loop_goes_on:
  fixes E :: "('c, 'ix, 'ds) env" and st :: "('c, 'ix) state" and tif :: "'c tif_file"
  assumes "get_metadata_from_tif (warp E) tif = Some meta"
      and "doc_dict = build_eo3_dict (path_uri E) (uuid4 E (built st)) (clock E (built st)) meta tif"
      and "yaml_path = join E ODC_DATASET_DIR (''ds_'' @ m_id meta @ ''.yaml'')"
      and "dump E yaml_path = None"
      and "st1 = st\<lparr>built := built st + 1, written := written st @ [(yaml_path, doc_dict)]\<rparr>"
  shows "process_tif E st tif = Inr (index_dataset E st1 meta doc_dict yaml_path)
       \<and> index_loop E st (tif # tifs) = index_loop E (index_dataset E st1 meta doc_dict yaml_path) tifs
       \<and> (\<forall>dataset err_msg.
            resolver E (index st) doc_dict (path_uri E yaml_path) = Inr (dataset, err_msg)
            \<and> (err_msg = None \<or> err_msg = Some []) \<longrightarrow>
              (\<forall>ix. update E (index st) dataset = Inr ix \<longrightarrow>
                 index_dataset E st1 meta doc_dict yaml_path
                   = st1\<lparr>index := ix, success_count := success_count st + 1\<rparr>)
            \<and> (\<forall>ix. update E (index st) dataset = Inl ValueError
                     \<and> add E (index st) dataset = Inr ix \<longrightarrow>
                 index_dataset E st1 meta doc_dict yaml_path
                   = st1\<lparr>index := ix, success_count := success_count st + 1,
                          printed := printed st @ [NewlyAdded (m_id meta)]\<rparr>)
            \<and> (\<forall>e. update E (index st) dataset = Inl ValueError
                    \<and> add E (index st) dataset = Inl e \<longrightarrow>
                 index_dataset E st1 meta doc_dict yaml_path
                   = st1\<lparr>printed := printed st @ [WriteFailed (m_id meta)]\<rparr>)
            \<and> (\<forall>e. update E (index st) dataset = Inl e \<and> e \<noteq> ValueError \<longrightarrow>
                 index_dataset E st1 meta doc_dict yaml_path
                   = st1\<lparr>printed := printed st @ [ProcessingException (m_id meta)]\<rparr>))
       \<and> (\<forall>dataset c msg.
            resolver E (index st) doc_dict (path_uri E yaml_path) = Inr (dataset, Some (c # msg)) \<longrightarrow>
            index_dataset E st1 meta doc_dict yaml_path
              = st1\<lparr>printed := printed st @ [FormatError (m_id meta) (c # msg)]\<rparr>)
       \<and> (\<forall>e. resolver E (index st) doc_dict (path_uri E yaml_path) = Inl e \<longrightarrow>
            index_dataset E st1 meta doc_dict yaml_path
              = st1\<lparr>printed := printed st @ [ProcessingException (m_id meta)]\<rparr>)
       \<and> ((\<forall>p. dump E p = None) \<longrightarrow>
            (\<exists>st'. index_loop E st batch = Inr st'
               \<and> built st' = built st
                    + length (filter (\<lambda>t. get_metadata_from_tif (warp E) t \<noteq> None) batch)))"
proof -
  have p: "process_tif E st tif = Inr (index_dataset E st1 meta doc_dict yaml_path)"
    using assms by (simp add: process_tif_def Let_def)
  then have l: "index_loop E st (tif # tifs)
                  = index_loop E (index_dataset E st1 meta doc_dict yaml_path) tifs"
    by simp
  have i: "index st1 = index st" and c: "success_count st1 = success_count st"
    and q: "printed st1 = printed st"
    using assms(5) by simp_all
  have r: "\<forall>dataset err_msg.
            resolver E (index st) doc_dict (path_uri E yaml_path) = Inr (dataset, err_msg)
            \<and> (err_msg = None \<or> err_msg = Some []) \<longrightarrow>
              (\<forall>ix. update E (index st) dataset = Inr ix \<longrightarrow>
                 index_dataset E st1 meta doc_dict yaml_path
                   = st1\<lparr>index := ix, success_count := success_count st + 1\<rparr>)
            \<and> (\<forall>ix. update E (index st) dataset = Inl ValueError
                     \<and> add E (index st) dataset = Inr ix \<longrightarrow>
                 index_dataset E st1 meta doc_dict yaml_path
                   = st1\<lparr>index := ix, success_count := success_count st + 1,
                          printed := printed st @ [NewlyAdded (m_id meta)]\<rparr>)
            \<and> (\<forall>e. update E (index st) dataset = Inl ValueError
                    \<and> add E (index st) dataset = Inl e \<longrightarrow>
                 index_dataset E st1 meta doc_dict yaml_path
                   = st1\<lparr>printed := printed st @ [WriteFailed (m_id meta)]\<rparr>)
            \<and> (\<forall>e. update E (index st) dataset = Inl e \<and> e \<noteq> ValueError \<longrightarrow>
                 index_dataset E st1 meta doc_dict yaml_path
                   = st1\<lparr>printed := printed st @ [ProcessingException (m_id meta)]\<rparr>)"
    unfolding index_dataset_def say_def by (auto simp: i c q)
  have f: "\<forall>dataset c msg.
            resolver E (index st) doc_dict (path_uri E yaml_path) = Inr (dataset, Some (c # msg)) \<longrightarrow>
            index_dataset E st1 meta doc_dict yaml_path
              = st1\<lparr>printed := printed st @ [FormatError (m_id meta) (c # msg)]\<rparr>"
    unfolding index_dataset_def say_def by (auto simp: i c q)
  have x: "\<forall>e. resolver E (index st) doc_dict (path_uri E yaml_path) = Inl e \<longrightarrow>
            index_dataset E st1 meta doc_dict yaml_path
              = st1\<lparr>printed := printed st @ [ProcessingException (m_id meta)]\<rparr>"
    unfolding index_dataset_def say_def by (auto simp: i c q)
  have b: "(\<forall>p. dump E p = None) \<longrightarrow>
            (\<exists>st'. index_loop E st batch = Inr st'
               \<and> built st' = built st
                    + length (filter (\<lambda>t. get_metadata_from_tif (warp E) t \<noteq> None) batch))"
    using index_loop_when_dump_succeeds [of E st batch] by blast
  from p l r f x b show ?thesis by blast
qed

lemma example_submission_facts:
  "get_metadata_from_tif (warp example_env)
     (example_file ''X_GEC_HH_20230101000000_Y.tif'' example_raster) = Some example_metadata"
  "get_metadata_from_tif (warp closed_index_env)
     (example_file ''X_GEC_HH_20230101000000_Y.tif'' example_raster) = Some example_metadata"
  "example_doc = build_eo3_dict (path_uri example_env) (uuid4 example_env 0) (clock example_env 0)
                   example_metadata (example_file ''X_GEC_HH_20230101000000_Y.tif'' example_raster)"
  "example_doc = build_eo3_dict (path_uri closed_index_env) (uuid4 closed_index_env 0)
                   (clock closed_index_env 0)
                   example_metadata (example_file ''X_GEC_HH_20230101000000_Y.tif'' example_raster)"
  "''odc_datasets/ds_X_GEC_HH_20230101000000_Y.yaml''
     = join example_env ODC_DATASET_DIR (''ds_'' @ m_id example_metadata @ ''.yaml'')"
  "''odc_datasets/ds_X_GEC_HH_20230101000000_Y.yaml''
     = join closed_index_env ODC_DATASET_DIR (''ds_'' @ m_id example_metadata @ ''.yaml'')"
  "dump example_env ''odc_datasets/ds_X_GEC_HH_20230101000000_Y.yaml'' = None"
  "dump closed_index_env ''odc_datasets/ds_X_GEC_HH_20230101000000_Y.yaml'' = None"
  "m_id example_metadata = ''X_GEC_HH_20230101000000_Y''"
  by code_simp+

lemma example_index_answers:
  "resolver example_env ix example_doc uri = Inr (''00000000-0000-0000-0000-000000000000'', None)"
  "resolver closed_index_env ix example_doc uri
     = Inr (''00000000-0000-0000-0000-000000000000'', None)"
  "update example_env [] d = Inl ValueError"
  "update closed_index_env [] d = Inl ValueError"
  "update example_env [d] d = Inr [d]"
  "add example_env ix d = Inr (d # ix)"
  "add closed_index_env ix d = Inl OtherException"
  "\<forall>p. dump closed_index_env p = None"
  by (simp_all add: example_env_def closed_index_env_def example_doc_def)

lemma submitted_document_examples:
  "get_metadata_from_tif (warp example_env)
     (example_file ''X_GEC_HH_20230101000000_Y.tif'' example_raster) = Some example_metadata
   \<and> dump example_env ''odc_datasets/ds_X_GEC_HH_20230101000000_Y.yaml'' = None
   \<and> update example_env [] ''00000000-0000-0000-0000-000000000000'' = Inl ValueError
   \<and> add example_env [] ''00000000-0000-0000-0000-000000000000''
       = Inr [''00000000-0000-0000-0000-000000000000'']
   \<and> process_tif example_env (start_state [])
        (example_file ''X_GEC_HH_20230101000000_Y.tif'' example_raster)
       = Inr \<lparr>index = [''00000000-0000-0000-0000-000000000000''], success_count = 1,
               written = [(''odc_datasets/ds_X_GEC_HH_20230101000000_Y.yaml'', example_doc)],
               built = 1, printed = [NewlyAdded ''X_GEC_HH_20230101000000_Y'']\<rparr>
   \<and> update example_env [''00000000-0000-0000-0000-000000000000'']
        ''00000000-0000-0000-0000-000000000000''
       = Inr [''00000000-0000-0000-0000-000000000000'']
   \<and> process_tif example_env (start_state [''00000000-0000-0000-0000-000000000000''])
        (example_file ''X_GEC_HH_20230101000000_Y.tif'' example_raster)
       = Inr \<lparr>index = [''00000000-0000-0000-0000-000000000000''], success_count = 1,
               written = [(''odc_datasets/ds_X_GEC_HH_20230101000000_Y.yaml'', example_doc)],
               built = 1, printed = []\<rparr>
   \<and> add closed_index_env [] ''00000000-0000-0000-0000-000000000000'' = Inl OtherException
   \<and> process_tif closed_index_env (start_state [])
        (example_file ''X_GEC_HH_20230101000000_Y.tif'' example_raster)
       = Inr \<lparr>index = [], success_count = 0,
               written = [(''odc_datasets/ds_X_GEC_HH_20230101000000_Y.yaml'', example_doc)],
               built = 1, printed = [WriteFailed ''X_GEC_HH_20230101000000_Y'']\<rparr>
   \<and> (\<exists>st'. index_loop closed_index_env (start_state [])
                [example_file ''X_GEC_HH_20230101000000_Y.tif'' example_raster,
                 example_file ''scene.tif'' unreferenced_raster,
                 example_file ''X_GEC_HH_20230101000000_Y.tif'' example_raster] = Inr st'
          \<and> built st' = 2)"
proof -
  let ?tif = "example_file ''X_GEC_HH_20230101000000_Y.tif'' example_raster"
  let ?path = "''odc_datasets/ds_X_GEC_HH_20230101000000_Y.yaml''"
  let ?id = "''00000000-0000-0000-0000-000000000000''"
  let ?st1 = "\<lambda>ix. \<lparr>index = ix, success_count = 0, written = [(?path, example_doc)],
                       built = 1, printed = []\<rparr> :: (int, string list) state"
  have s: "?st1 ix = (start_state ix)\<lparr>built := built (start_state ix) + 1,
                        written := written (start_state ix) @ [(?path, example_doc)]\<rparr>" for ix
    by (simp add: start_state_def)
  have b0: "built (start_state ix) = 0" and i0: "index (start_state ix) = ix"
    and c0: "success_count (start_state ix) = 0" and p0: "printed (start_state ix) = []" for ix
    by (simp_all add: start_state_def)
  have d: "example_doc = build_eo3_dict (path_uri example_env) (uuid4 example_env (built (start_state ix)))
                   (clock example_env (built (start_state ix))) example_metadata ?tif" for ix
    using example_submission_facts(3) by (simp only: b0)
  have d': "example_doc = build_eo3_dict (path_uri closed_index_env)
                   (uuid4 closed_index_env (built (start_state ix)))
                   (clock closed_index_env (built (start_state ix))) example_metadata ?tif" for ix
    using example_submission_facts(4) by (simp only: b0)
  note inserted =
    submitted_document_is_indexed_and_loop_goes_on
      [where E = example_env and st = "start_state []" and ?st1.0 = "?st1 []",
       OF example_submission_facts(1) d example_submission_facts(5,7) s]
  note updated =
    submitted_document_is_indexed_and_loop_goes_on
      [where E = example_env and st = "start_state [?id]" and ?st1.0 = "?st1 [?id]",
       OF example_submission_facts(1) d example_submission_facts(5,7) s]
  note refused =
    submitted_document_is_indexed_and_loop_goes_on
      [where E = closed_index_env and st = "start_state []" and ?st1.0 = "?st1 []"
         and batch = "[?tif, example_file ''scene.tif'' unreferenced_raster, ?tif]",
       OF example_submission_facts(2) d' example_submission_facts(6,8) s]
  have "index_dataset example_env (?st1 []) example_metadata example_doc ?path
          = (?st1 [])\<lparr>index := [?id], success_count := success_count (start_state []) + 1,
                       printed := printed (start_state []) @ [NewlyAdded (m_id example_metadata)]\<rparr>"
    by (rule inserted [THEN conjunct2, THEN conjunct2, THEN conjunct1, rule_format,
                    THEN conjunct2, THEN conjunct1, rule_format])
       (auto simp add: example_index_answers i0)
  with inserted have a: "process_tif example_env (start_state []) ?tif
       = Inr \<lparr>index = [?id], success_count = 1, written = [(?path, example_doc)],
               built = 1, printed = [NewlyAdded ''X_GEC_HH_20230101000000_Y'']\<rparr>"
    by (simp add: c0 p0 example_submission_facts(9))
  have "index_dataset example_env (?st1 [?id]) example_metadata example_doc ?path
          = (?st1 [?id])\<lparr>index := [?id], success_count := success_count (start_state [?id]) + 1\<rparr>"
    by (rule updated [THEN conjunct2, THEN conjunct2, THEN conjunct1, rule_format,
                   THEN conjunct1, rule_format])
       (auto simp add: example_index_answers i0)
  with updated have u: "process_tif example_env (start_state [?id]) ?tif
       = Inr \<lparr>index = [?id], success_count = 1, written = [(?path, example_doc)],
               built = 1, printed = []\<rparr>"
    by (simp add: c0 p0)
  have "index_dataset closed_index_env (?st1 []) example_metadata example_doc ?path
          = (?st1 [])\<lparr>printed := printed (start_state []) @ [WriteFailed (m_id example_metadata)]\<rparr>"
    by (rule refused [THEN conjunct2, THEN conjunct2, THEN conjunct1, rule_format,
                   THEN conjunct2, THEN conjunct2, THEN conjunct1, rule_format])
       (auto simp add: example_index_answers i0)
  with refused have r: "process_tif closed_index_env (start_state []) ?tif
       = Inr \<lparr>index = [], success_count = 0, written = [(?path, example_doc)],
               built = 1, printed = [WriteFailed ''X_GEC_HH_20230101000000_Y'']\<rparr>"
    by (simp add: c0 p0 example_submission_facts(9))
  have n: "length (filter (\<lambda>t. get_metadata_from_tif (warp closed_index_env) t \<noteq> None)
                     [?tif, example_file ''scene.tif'' unreferenced_raster, ?tif]) = 2"
    by code_simp
  from refused [THEN conjunct2, THEN conjunct2, THEN conjunct2, THEN conjunct2, THEN conjunct2,
                rule_format, OF example_index_answers(8) [rule_format]]
  have l: "\<exists>st'. index_loop closed_index_env (start_state [])
                [?tif, example_file ''scene.tif'' unreferenced_raster, ?tif] = Inr st'
          \<and> built st' = 2"
    by (simp only: n b0 add_0)
  from a u r l example_submission_facts(1,7) example_index_answers(3,5,6,7)
  show ?thesis by simp
qed

text \<open>
  A batch of three files in a world that cannot write the document of the second.
\<close>

lemma batch_metadata:
  "get_metadata_from_tif (warp unwritable_B_env) file_A
     = Some (example_metadata\<lparr>m_id := ''A_GEC_HH_20230101000000_Y''\<rparr>)"
  "get_metadata_from_tif (warp unwritable_B_env) file_B
     = Some (example_metadata\<lparr>m_id := ''B_GEC_HH_20230101000000_Y''\<rparr>)"
  "get_metadata_from_tif (warp unwritable_B_env) file_C
     = Some (example_metadata\<lparr>m_id := ''C_GEC_HH_20230101000000_Y''\<rparr>)"
  by code_simp+

lemma batch_dump:
  "dump unwritable_B_env (join unwritable_B_env ODC_DATASET_DIR ''ds_A_GEC_HH_20230101000000_Y.yaml'') = None"
  "dump unwritable_B_env (join unwritable_B_env ODC_DATASET_DIR ''ds_B_GEC_HH_20230101000000_Y.yaml'') = Some OtherException"
  "dump unwritable_B_env (join unwritable_B_env ODC_DATASET_DIR ''ds_C_GEC_HH_20230101000000_Y.yaml'') = None"
  "dump unwritable_B_env ''odc_datasets/ds_B_GEC_HH_20230101000000_Y.yaml'' = Some OtherException"
  by (simp_all add: unwritable_B_env_def example_env_def ODC_DATASET_DIR_def)

lemma process_file_B: "process_tif unwritable_B_env st file_B = Inl OtherException"
  by (simp add: process_tif_def Let_def batch_metadata batch_dump)

lemma process_file_A: "\<exists>st'. process_tif unwritable_B_env st file_A = Inr st'"
  by (simp add: process_tif_def Let_def batch_metadata batch_dump)

lemma loop_ABC: "index_loop unwritable_B_env st [file_A, file_B, file_C] = Inl OtherException"
  using process_file_A [of st] by (auto simp: process_file_B)

lemma loop_A:
  "map_sum id index (index_loop unwritable_B_env (start_state []) [file_A])
          = Inr [''00000000-0000-0000-0000-000000000000'']"
  by code_simp

lemma loop_AC:
  "map_sum id success_count (index_loop unwritable_B_env (start_state []) [file_A, file_C])
          = Inr 2"
  by code_simp

lemma browsing_loop_goes_on:
  "(case create_stac example_warp id frozen_clock [file_A, unreadable_B, file_C] of
           Continues r \<Rightarrow> map item_id (fst r)
         | _ \<Rightarrow> [])
          = [''A_GEC_HH_20230101000000_Y'', ''C_GEC_HH_20230101000000_Y'']"
  by code_simp

text \<open>
  Claim C4. For every dataset document submitted to the index, an update is tried
  first, the record is inserted when there is none to update, a failed insertion is
  printed and the file skipped, and the failure of one file never ends the processing
  of the remaining files of the batch. The first three parts hold, as shown above. The
  last one does not hold of \<^verbatim>\<open>main\<close>: the YAML file of a document is written
  outside of every \<^verbatim>\<open>try\<close> (lines 207 to 209). In the batch of the files A, B and C,
  each of which gives metadata, the document of A is submitted and inserted, writing
  the document of B raises, and the exception leaves the loop and \<^verbatim>\<open>main\<close>: the
  process ends with status 1 and C, which the same run registers when B is not in
  the batch, is never processed. The loop of \<^verbatim>\<open>01_create_stac.py\<close>, whose whole body
  is in a \<^verbatim>\<open>try\<close>, prints the failure of B and goes on with C.
\<close>

theorem yaml_write_failure_ends_the_batch:
  "map_option m_id (get_metadata_from_tif (warp unwritable_B_env) file_B)
     = Some ''B_GEC_HH_20230101000000_Y''
   \<and> map_option m_id (get_metadata_from_tif (warp unwritable_B_env) file_C)
       = Some ''C_GEC_HH_20230101000000_Y''
   \<and> dump unwritable_B_env ''odc_datasets/ds_B_GEC_HH_20230101000000_Y.yaml''
       = Some OtherException
   \<and> map_sum id index (index_loop unwritable_B_env (start_state []) [file_A])
       = Inr [''00000000-0000-0000-0000-000000000000'']
   \<and> process_tif unwritable_B_env (start_state []) file_B = Inl OtherException
   \<and> index_loop unwritable_B_env (start_state []) [file_A, file_B, file_C] = Inl OtherException
   \<and> main unwritable_B_env [] [file_A, file_B, file_C] = Uncaught OtherException
   \<and> exit_status (main unwritable_B_env [] [file_A, file_B, file_C]) = Some 1
   \<and> map_sum id success_count (index_loop unwritable_B_env (start_state []) [file_A, file_C])
       = Inr 2
   \<and> (case create_stac example_warp id frozen_clock [file_A, unreadable_B, file_C] of
         Continues r \<Rightarrow> map item_id (fst r)
       | _ \<Rightarrow> [])
       = [''A_GEC_HH_20230101000000_Y'', ''C_GEC_HH_20230101000000_Y'']"
proof (intro conjI)
  show "map_option m_id (get_metadata_from_tif (warp unwritable_B_env) file_B)
          = Some ''B_GEC_HH_20230101000000_Y''"
    by (simp add: batch_metadata)
  show "map_option m_id (get_metadata_from_tif (warp unwritable_B_env) file_C)
          = Some ''C_GEC_HH_20230101000000_Y''"
    by (simp add: batch_metadata)
  show "dump unwritable_B_env ''odc_datasets/ds_B_GEC_HH_20230101000000_Y.yaml''
          = Some OtherException"
    by (rule batch_dump)
  show "map_sum id index (index_loop unwritable_B_env (start_state []) [file_A])
          = Inr [''00000000-0000-0000-0000-000000000000'']"
    by (rule loop_A)
  show "process_tif unwritable_B_env (start_state []) file_B = Inl OtherException"
    by (rule process_file_B)
  show "index_loop unwritable_B_env (start_state []) [file_A, file_B, file_C] = Inl OtherException"
    by (rule loop_ABC)
  show m: "main unwritable_B_env [] [file_A, file_B, file_C] = Uncaught OtherException"
    by (simp add: main_def loop_ABC del: index_loop.simps)
  show "exit_status (main unwritable_B_env [] [file_A, file_B, file_C]) = Some 1"
    by (simp add: m)
  show "map_sum id success_count (index_loop unwritable_B_env (start_state []) [file_A, file_C])
          = Inr 2"
    by (rule loop_AC)
  show "(case create_stac example_warp id frozen_clock [file_A, unreadable_B, file_C] of
           Continues r \<Rightarrow> map item_id (fst r)
         | _ \<Rightarrow> [])
          = [''A_GEC_HH_20230101000000_Y'', ''C_GEC_HH_20230101000000_Y'']"
    by (rule browsing_loop_goes_on)
qed

section \<open>Runs\<close>

text \<open>
  Claim C5, as amended. When no file of the input directory matches \<^verbatim>\<open>*.tif\<close>, no
  file is processed in either mode. The browsing script raises \<^verbatim>\<open>SystemExit\<close> with a
  message, which ends the process with the status 1. The indexing script prints an
  error line and returns from \<^verbatim>\<open>main\<close>: the process ends normally, with the
  status 0.
\<close>

theorem empty_input_ends_the_run:
  fixes W :: "'c warp" and E :: "('c, 'ix, 'ds) env"
  shows "create_stac W abspath time_at [] = SystemExit
       \<and> exit_status (create_stac W abspath time_at []) = Some 1
       \<and> main E ix [] = Returned [NoTifFound]
       \<and> exit_status (main E ix []) = Some 0"
  by (simp add: create_stac_def main_def)

text \<open>
  The claim as it was stated fails in indexing mode: on the empty list \<^verbatim>\<open>main\<close>
  returns, and the status of the process is 0.
\<close>

theorem empty_input_indexing_exits_zero:
  "main example_env [] [] = Returned [NoTifFound]
   \<and> exit_status (main example_env [] []) = Some 0"
  by (simp add: main_def)

end
